theory Spec2Isabelle
  imports Complex_Main "HOL-Library.Monad_Syntax"
begin

section \<open>Transit signal priority (core/glide/tsp.py)\<close>

text \<open>
  Python floats are modelled as exact reals throughout: every property below is about
  comparisons, sums and clamping, not about rounding error. Python ints are \<open>int\<close>.
\<close>

text \<open>
  The \<open>reason\<close> field of a decision is an f-string built from the headway and the two
  thresholds; the model keeps the numbers that are formatted and the case that chose the
  text, not the characters.
\<close>

datatype tsp_reason =
    NoReason
  | LateBus real real
  | EarlyBus real real
  | NormalHeadway real real real

text \<open>The field \<open>extend\<close> is written \<open>extend_s\<close>: the record package owns the name.\<close>

record TSPDecision =
  grant :: bool
  extend_s :: int
  advance :: int
  hold :: int
  reason :: tsp_reason

definition TSPDecision_default :: TSPDecision where
  "TSPDecision_default =
     \<lparr>grant = False, extend_s = 0, advance = 0, hold = 0, reason = NoReason\<rparr>"

text \<open>\<open>tsp_policy(h_now, H, delta, max_ext, max_adv, cooldown)\<close>; \<open>cooldown\<close> is unused there.\<close>

definition tsp_policy :: "real \<Rightarrow> real \<Rightarrow> real \<Rightarrow> int \<Rightarrow> int \<Rightarrow> int \<Rightarrow> TSPDecision" where
  "tsp_policy h_now H delta max_ext_s max_adv_s cooldown =
     (let decision = TSPDecision_default in
      if h_now > H + delta then
        decision\<lparr>grant := True, extend_s := max_ext_s, advance := max_adv_s, hold := 0,
                 reason := LateBus h_now (H + delta)\<rparr>
      else if h_now < H - delta then
        decision\<lparr>grant := False, extend_s := 0, advance := 0, hold := 15,
                 reason := EarlyBus h_now (H - delta)\<rparr>
      else
        decision\<lparr>grant := False, extend_s := 0, advance := 0, hold := 0,
                 reason := NormalHeadway h_now (H - delta) (H + delta)\<rparr>)"

text \<open>The controller: three dictionaries keyed by the signal id.\<close>

record TSPController =
  last_grant_time :: "string \<rightharpoonup> real"
  total_extensions :: "string \<rightharpoonup> int"
  cycle_start_time :: "string \<rightharpoonup> real"

definition TSPController_init :: TSPController where
  "TSPController_init =
     \<lparr>last_grant_time = Map.empty, total_extensions = Map.empty,
      cycle_start_time = Map.empty\<rparr>"

definition reset_cycle :: "TSPController \<Rightarrow> string \<Rightarrow> real \<Rightarrow> TSPController" where
  "reset_cycle c tls_id current_time =
     c\<lparr>cycle_start_time := (cycle_start_time c)(tls_id \<mapsto> current_time),
       total_extensions := (total_extensions c)(tls_id \<mapsto> 0)\<rparr>"

definition can_grant_tsp :: "TSPController \<Rightarrow> string \<Rightarrow> real \<Rightarrow> int \<Rightarrow> bool" where
  "can_grant_tsp c tls_id current_time cooldown =
     (let last_time = (case last_grant_time c tls_id of None \<Rightarrow> 0 | Some l \<Rightarrow> l)
      in current_time - last_time \<ge> real_of_int cooldown)"

definition get_cycle_extensions :: "TSPController \<Rightarrow> string \<Rightarrow> int" where
  "get_cycle_extensions c tls_id =
     (case total_extensions c tls_id of None \<Rightarrow> 0 | Some e \<Rightarrow> e)"

definition record_grant :: "TSPController \<Rightarrow> string \<Rightarrow> real \<Rightarrow> int \<Rightarrow> TSPController" where
  "record_grant c tls_id current_time extend_sec =
     (let current_ext = get_cycle_extensions c tls_id in
      c\<lparr>last_grant_time := (last_grant_time c)(tls_id \<mapsto> current_time),
        total_extensions := (total_extensions c)(tls_id \<mapsto> current_ext + extend_sec)\<rparr>)"

text \<open>
  \<open>apply_tsp_to_phase(current_green_remaining, current_cycle_extensions, decision,
  min_green, max_cycle_extension)\<close> returns the pair (seconds granted, granted?).
\<close>

definition apply_tsp_to_phase :: "int \<Rightarrow> int \<Rightarrow> TSPDecision \<Rightarrow> int \<Rightarrow> int \<Rightarrow> int \<times> bool" where
  "apply_tsp_to_phase current_green_remaining current_cycle_extensions decision
       min_green max_cycle_extension =
     (if \<not> grant decision then (0, False)
      else
        let remaining_budget = max_cycle_extension - current_cycle_extensions in
        if remaining_budget \<le> 0 then (0, False)
        else
          let requested_extension = extend_s decision;
              actual_extension = min requested_extension remaining_budget in
          if actual_extension \<le> 0 then (0, False)
          else (actual_extension, True))"

text \<open>
  What the controller's clients do with it (\<open>apply_tsp_control\<close> in sumo_corridor.py, and the
  tests): a cycle reset, or a grant request whose amount is whatever
  \<open>apply_tsp_to_phase\<close> returns for the node's current cumulative extension, recorded with
  \<open>record_grant\<close> only when the second component says it was granted.
\<close>

datatype tsp_op =
    ResetCycle string real
  | RequestGrant string real int TSPDecision int

fun tsp_step :: "int \<Rightarrow> TSPController \<Rightarrow> tsp_op \<Rightarrow> TSPController" where
  "tsp_step budget c (ResetCycle tls_id t) = reset_cycle c tls_id t"
| "tsp_step budget c (RequestGrant tls_id t remaining decision min_green) =
     (let current_ext = get_cycle_extensions c tls_id;
          (actual_ext, granted) =
             apply_tsp_to_phase remaining current_ext decision min_green budget
      in if granted \<and> actual_ext > 0 then record_grant c tls_id t actual_ext else c)"

fun tsp_run :: "int \<Rightarrow> TSPController \<Rightarrow> tsp_op list \<Rightarrow> TSPController" where
  "tsp_run budget c [] = c"
| "tsp_run budget c (ev # evs) = tsp_run budget (tsp_step budget c ev) evs"

text \<open>
  A grant attempt under the cooldown, as in the per-node body of \<open>apply_tsp_control\<close>:
  the node is skipped while \<open>can_grant_tsp\<close> is false; otherwise the grant of
  \<open>extend_sec\<close> seconds is recorded. The flag tells whether a grant was recorded.
\<close>

definition attempt_grant :: "TSPController \<Rightarrow> string \<Rightarrow> real \<Rightarrow> int \<Rightarrow> int \<Rightarrow> TSPController \<times> bool" where
  "attempt_grant c tls_id current_time cooldown extend_sec =
     (if \<not> can_grant_tsp c tls_id current_time cooldown then (c, False)
      else (record_grant c tls_id current_time extend_sec, True))"

section \<open>Green-wave offsets (core/glide/offsets.py)\<close>

datatype py_error = ZeroDivisionError | KeyError | IndexError

text \<open>Python's \<open>int(x)\<close> on a float truncates toward zero.\<close>

definition py_int :: "real \<Rightarrow> int" where
  "py_int x = (if 0 \<le> x then \<lfloor>x\<rfloor> else \<lceil>x\<rceil>)"

text \<open>
  Python's \<open>x % c\<close> on floats, for \<open>c \<noteq> 0\<close>: the remainder takes the sign of the divisor.
  The callers below raise \<open>ZeroDivisionError\<close> before using it with \<open>c = 0\<close>.
\<close>

definition py_fmod :: "real \<Rightarrow> real \<Rightarrow> real" where
  "py_fmod x c = x - c * of_int \<lfloor>x / c\<rfloor>"

text \<open>
  The loop of \<open>compute_offsets\<close>: \<open>cumulative_travel\<close> and the list \<open>offsets\<close> are the loop
  state. \<open>distance / v_ms\<close> raises when the speed is zero, \<open>% cycle_s\<close> when the cycle is.
\<close>

fun compute_offsets_loop ::
  "real \<Rightarrow> int \<Rightarrow> real \<Rightarrow> int list \<Rightarrow> real list \<Rightarrow> py_error + int list" where
  "compute_offsets_loop v_ms cycle_s cumulative_travel offsets [] = Inr offsets"
| "compute_offsets_loop v_ms cycle_s cumulative_travel offsets (distance # rest) =
     (if v_ms = 0 then Inl ZeroDivisionError
      else
        let travel_time = distance / v_ms;
            cumulative_travel' = cumulative_travel + travel_time in
        if cycle_s = 0 then Inl ZeroDivisionError
        else
          let offset = py_int (py_fmod cumulative_travel' (of_int cycle_s)) in
          compute_offsets_loop v_ms cycle_s cumulative_travel' (offsets @ [offset]) rest)"

definition compute_offsets :: "real list \<Rightarrow> int \<Rightarrow> real \<Rightarrow> py_error + int list" where
  "compute_offsets distances_m cycle_s v_prog_kmh =
     (if distances_m = [] then Inr [0]
      else
        let v_ms = v_prog_kmh / 3.6 in
        compute_offsets_loop v_ms cycle_s 0 [0] distances_m)"

text \<open>
  \<open>validate_offsets\<close>: the final loop of the source compares neighbours and does nothing
  (\<open>pass\<close>), so it leaves no trace here.
\<close>

definition validate_offsets :: "int list \<Rightarrow> int \<Rightarrow> bool" where
  "validate_offsets offsets cycle_s =
     (if offsets = [] then False
      else if hd offsets \<noteq> 0 then False
      else if \<exists>offset \<in> set offsets. offset < 0 \<or> offset \<ge> cycle_s then False
      else True)"

text \<open>\<open>compute_green_band\<close>: one window per node id, the offset read with default 0.\<close>

record green_window =
  gw_node :: string
  gw_start :: int
  gw_end :: int
  gw_width :: int
  gw_offset :: int

definition compute_green_band ::
  "string list \<Rightarrow> (string \<rightharpoonup> int) \<Rightarrow> int \<Rightarrow> real \<Rightarrow> green_window list" where
  "compute_green_band node_ids offsets_map cycle_s main_split =
     (let green_width = py_int (main_split * of_int cycle_s) in
      map (\<lambda>node_id.
             let offset = (case offsets_map node_id of None \<Rightarrow> 0 | Some off \<Rightarrow> off);
                 start_time = offset;
                 end_time = min cycle_s (start_time + green_width);
                 end_time' = (if end_time < start_time then cycle_s else end_time)
             in \<lparr>gw_node = node_id, gw_start = start_time, gw_end = end_time',
                 gw_width = green_width, gw_offset = offset\<rparr>)
          node_ids)"

section \<open>The corridor simulation (app_glide.py)\<close>

subsection \<open>Requests and the signal plan\<close>

text \<open>
  Field names of different records share one name space, so the fields of a bus line
  carry the prefix \<open>bl_\<close> and those of the TSP parameters keep their names.
\<close>

record TSPParams =
  max_extend_sec :: int
  max_hold_sec :: int
  cooldown_sec :: int

record BusLineSpec =
  bl_id :: string
  bl_headway_sec :: int
  bl_jitter_sec :: int
  bl_dwell_sec :: int
  bl_phase_offset_sec :: int

record SimRequest =
  mode :: string
  steps :: int
  cycle :: int
  v_prog_kmh :: real
  cars_per_hour :: "int option"
  bus_headway_sec :: "int option"
  ab_tolerance_sec :: int
  dwell_sec :: int
  simulate_bunching :: bool
  anti_bunching :: bool
  tsp :: "TSPParams option"
  bus_lines :: "BusLineSpec list option"

text \<open>The bounds that the request model declares (\<open>Field(..., ge=, le=)\<close>).\<close>

definition valid_request :: "SimRequest \<Rightarrow> bool" where
  "valid_request req \<longleftrightarrow>
     mode req \<in> {''fixed'', ''glide'', ''glide_tsp''}
     \<and> 60 \<le> steps req \<and> steps req \<le> 1800
     \<and> 30 \<le> cycle req \<and> cycle req \<le> 180
     \<and> 20 \<le> v_prog_kmh req \<and> v_prog_kmh req \<le> 80
     \<and> (case cars_per_hour req of None \<Rightarrow> True | Some c \<Rightarrow> 0 \<le> c)
     \<and> (case bus_headway_sec req of None \<Rightarrow> True | Some h \<Rightarrow> 60 \<le> h)
     \<and> 0 \<le> ab_tolerance_sec req
     \<and> 0 \<le> dwell_sec req \<and> dwell_sec req \<le> 120"

text \<open>Decimal digits of a natural number, for the ids \<open>J2\<close>, \<open>car_17\<close>, \<open>bus_R61_3\<close>.\<close>

definition digit_char :: "nat \<Rightarrow> char" where
  "digit_char d = ''0123456789'' ! d"

fun string_of_nat :: "nat \<Rightarrow> string" where
  "string_of_nat n =
     (if n < 10 then [digit_char n]
      else string_of_nat (n div 10) @ [digit_char (n mod 10)])"

text \<open>
  \<open>simple_compute_offsets\<close>: a dictionary from \<open>J1\<close>, \<open>J2\<close>, ... to the offsets. A failing
  division is \<open>None\<close>: the whole run sits in one \<open>try\<close> that turns every exception into
  the same error response.
\<close>

fun simple_offsets_loop ::
  "real \<Rightarrow> int \<Rightarrow> real \<Rightarrow> nat \<Rightarrow> (string \<rightharpoonup> int) \<Rightarrow> real list \<Rightarrow> (string \<rightharpoonup> int) option" where
  "simple_offsets_loop vms cyc acc i offsets [] = Some offsets"
| "simple_offsets_loop vms cyc acc i offsets (d # rest) =
     (if vms = 0 \<or> cyc = 0 then None
      else
        let acc' = acc + d / vms in
        simple_offsets_loop vms cyc acc' (Suc i)
          (offsets(''J'' @ string_of_nat (i + 2) \<mapsto> py_int (py_fmod acc' (of_int cyc)))) rest)"

definition simple_compute_offsets :: "real list \<Rightarrow> int \<Rightarrow> real \<Rightarrow> (string \<rightharpoonup> int) option" where
  "simple_compute_offsets distances cyc speed_kmh =
     simple_offsets_loop (speed_kmh / 3.6) cyc 0 0 [''J1'' \<mapsto> 0] distances"

text \<open>The constants of a run: \<open>C\<close>, \<open>G = int(0.6 * C)\<close>, \<open>Y = 6\<close>, speeds and the step cap.\<close>

definition green_of :: "int \<Rightarrow> int" where
  "green_of C = py_int (0.6 * of_int C)"

definition yellow :: int where
  "yellow = 6"

definition cruise_speed :: "SimRequest \<Rightarrow> real" where
  "cruise_speed req = v_prog_kmh req / 3.6"

definition bus_speed :: "SimRequest \<Rightarrow> real" where
  "bus_speed req = cruise_speed req * 0.9"

definition STEPS_of :: "SimRequest \<Rightarrow> int" where
  "STEPS_of req = min (steps req) 1200"

definition stoplines :: "(string \<times> real) list" where
  "stoplines = [(''J1'', -600), (''J2'', -300), (''J3'', 0), (''J4'', 300), (''J5'', 600)]"

definition nodes :: "string list" where
  "nodes = map fst stoplines"

definition offsets_of :: "SimRequest \<Rightarrow> (string \<rightharpoonup> int) option" where
  "offsets_of req =
     (if mode req = ''fixed''
      then Some [''J1'' \<mapsto> 0, ''J2'' \<mapsto> 0, ''J3'' \<mapsto> 0, ''J4'' \<mapsto> 0, ''J5'' \<mapsto> 0]
      else simple_compute_offsets [300, 300, 300, 300] (cycle req) (v_prog_kmh req))"

datatype phase = Green | Yellow | Red

text \<open>
  \<open>ew_state(nid, t_int)\<close> with the run's \<open>offsets\<close>, \<open>C\<close>, \<open>G\<close> and \<open>Y\<close> as parameters; the
  strings \<open>"G"\<close>, \<open>"y"\<close>, \<open>"r"\<close> are the three phases. \<open>%\<close> raises when \<open>C = 0\<close>.
\<close>

definition ew_state :: "(string \<rightharpoonup> int) \<Rightarrow> int \<Rightarrow> int \<Rightarrow> int \<Rightarrow> string \<Rightarrow> int \<Rightarrow> phase option" where
  "ew_state offsets C G Y nid t_int =
     (if C = 0 then None
      else
        let tau = (t_int + (case offsets nid of None \<Rightarrow> 0 | Some off \<Rightarrow> off)) mod C in
        if tau < G then Some Green
        else if tau < G + Y then Some Yellow
        else Some Red)"

subsection \<open>Vehicles, bus stops and the monitor\<close>

datatype vkind = Car | Bus

text \<open>
  A vehicle is a dictionary in the source. Its keys \<open>id\<close>, \<open>x\<close>, \<open>y\<close>, \<open>v\<close> are the fields
  \<open>vid\<close>, \<open>x_pos\<close>, \<open>y_pos\<close>, \<open>vel\<close>. Keys that a car does not have, or that \<open>pop\<close> removes,
  are read with \<open>get\<close> everywhere: an absent \<open>line\<close>, \<open>dwell_until\<close> or \<open>at_stop\<close> is
  \<open>None\<close>, an absent \<open>stopped_at_station\<close> or \<open>queueing\<close> is \<open>False\<close>, an absent
  \<open>served_stops\<close> is the empty list.
\<close>

record vehicle =
  vid :: string
  kind :: vkind
  x_pos :: real
  y_pos :: real
  vel :: real
  stopped :: bool
  enter_t :: real
  stops_count :: int
  delay_s :: real
  line :: "string option"
  dwell_until :: "int option"
  served_stops :: "real list"
  at_stop :: "real option"
  queueing :: bool
  stopped_at_station :: bool
  signal_delay_s :: real
  queue_hold_s :: real
  dwell_s :: real

record line_stats =
  scheduled_headway_sec :: int
  arrivals :: int
  holds :: int
  tsp_extends :: int
  queue_holds :: int
  arr_times :: "int list"

record stop_stats =
  st_arrivals :: int
  avg_dwell :: real
  sum_dwell :: real
  queue_max :: int
  queue_now :: int

text \<open>
  The tables that \<open>update_one\<close> reads and writes: occupancy, release times and last
  arrival per stop position, and the two halves of \<open>monitor\<close>. A missing key is \<open>None\<close>.
\<close>

record stops_state =
  stop_occupancy :: "real \<rightharpoonup> string list"
  stop_release_time :: "real \<rightharpoonup> int list"
  last_arrival_time :: "real \<rightharpoonup> int option"
  monitor_lines :: "string \<rightharpoonup> line_stats"
  monitor_stops :: "string \<rightharpoonup> stop_stats"

definition bus_stops :: "real list" where
  "bus_stops = [-450, 450]"

text \<open>The two stop names are written \<open>S1\<close> and \<open>S2\<close>.\<close>

definition stop_name :: "real \<rightharpoonup> string" where
  "stop_name = [-450 \<mapsto> ''S1'', 450 \<mapsto> ''S2'']"

definition STOP_BERTHS :: nat where
  "STOP_BERTHS = 2"

definition COINCIDENCE_WINDOW :: int where
  "COINCIDENCE_WINDOW = 18"

definition PRESTOP_HOLD :: real where
  "PRESTOP_HOLD = 16"

definition STOPLINE_BUFFER :: real where
  "STOPLINE_BUFFER = 4.5"

definition X_MIN :: real where
  "X_MIN = -800"

definition X_MAX :: real where
  "X_MAX = 800"

subsection \<open>The per-tick update of one vehicle\<close>

definition next_stopline_x :: "real \<Rightarrow> real option" where
  "next_stopline_x x_now =
     (let nxt = filter (\<lambda>sx. sx > x_now + 0.1) (map snd stoplines)
      in if nxt = [] then None else Some (min_list nxt))"

text \<open>Python's \<open>min(xs, key=f)\<close> on a non-empty list: the first element with the least key.\<close>

fun py_min_by :: "('a \<Rightarrow> real) \<Rightarrow> 'a \<Rightarrow> 'a list \<Rightarrow> 'a" where
  "py_min_by f best [] = best"
| "py_min_by f best (k # ks) = py_min_by f (if f k < f best then k else best) ks"

text \<open>
  The stop-line rule at the end of \<open>update_one\<close>: \<open>x\<close> and \<open>x_try\<close> are the local variables of
  that name. The node of the next stop line is the key of \<open>stoplines\<close> nearest to it.
\<close>

definition stopline_limit :: "(string \<rightharpoonup> bool) \<Rightarrow> real \<Rightarrow> real \<Rightarrow> real" where
  "stopline_limit green_now x x_try =
     (case next_stopline_x x of
        None \<Rightarrow> x_try
      | Some sx_next \<Rightarrow>
          let nid = fst (py_min_by (\<lambda>(k, sx). \<bar>sx - sx_next\<bar>) (hd stoplines) (tl stoplines)) in
          if \<not> (case green_now nid of None \<Rightarrow> False | Some g \<Rightarrow> g) \<and> x < sx_next
          then min x_try (sx_next - STOPLINE_BUFFER)
          else x_try)"

definition stopline_move :: "vehicle \<Rightarrow> (string \<rightharpoonup> bool) \<Rightarrow> real \<Rightarrow> real \<Rightarrow> vehicle" where
  "stopline_move v green_now x x_try =
     (let x_try' = stopline_limit green_now x x_try in
      v\<lparr>x_pos := x_try', stopped := (x_try' = x), stopped_at_station := False\<rparr>)"

text \<open>\<open>xs.index(a)\<close> for an element that is in the list, and \<open>xs.pop(i)\<close>.\<close>

definition index_of :: "'a \<Rightarrow> 'a list \<Rightarrow> nat" where
  "index_of a xs = length (takeWhile (\<lambda>b. b \<noteq> a) xs)"

definition pop_at :: "nat \<Rightarrow> 'a list \<Rightarrow> 'a list option" where
  "pop_at i xs = (if i < length xs then Some (take i xs @ drop (Suc i) xs) else None)"

text \<open>
  Leaving a stop when the dwell is over: the bus gives its berth back, the stop joins
  \<open>served_stops\<close>, and the position is nudged to 0.2 past the stop.
\<close>

definition leave_stop :: "vehicle \<Rightarrow> stops_state \<Rightarrow> real \<Rightarrow> (vehicle \<times> stops_state) option" where
  "leave_stop v s sx0 = do {
     name \<leftarrow> stop_name sx0;
     occ \<leftarrow> stop_occupancy s sx0;
     s' \<leftarrow> (if vid v \<in> set occ then do {
               let i_rm = index_of (vid v) occ;
               occ' \<leftarrow> pop_at i_rm occ;
               rel \<leftarrow> stop_release_time s sx0;
               rel' \<leftarrow> pop_at i_rm rel;
               Some (s\<lparr>stop_occupancy := (stop_occupancy s)(sx0 \<mapsto> occ'),
                       stop_release_time := (stop_release_time s)(sx0 \<mapsto> rel')\<rparr>)
             } else Some s);
     Some (v\<lparr>served_stops := served_stops v @ [sx0], dwell_until := None,
             stopped_at_station := False, at_stop := None,
             x_pos := max (x_pos v) (sx0 + 0.2)\<rparr>, s')
   }"

definition line_or_BUS :: "vehicle \<Rightarrow> string" where
  "line_or_BUS v = (case line v of None \<Rightarrow> ''BUS'' | Some l \<Rightarrow> l)"

text \<open>Denied entry: held \<open>PRESTOP_HOLD\<close> before the stop, queueing, one more queue hold.\<close>

definition queue_hold :: "vehicle \<Rightarrow> stops_state \<Rightarrow> real \<Rightarrow> (vehicle \<times> stops_state) option" where
  "queue_hold v s sx = do {
     let lid = line_or_BUS v;
     ls \<leftarrow> monitor_lines s lid;
     Some (v\<lparr>x_pos := sx - PRESTOP_HOLD, stopped := True, queueing := True\<rparr>,
           s\<lparr>monitor_lines := (monitor_lines s)(lid \<mapsto> ls\<lparr>queue_holds := queue_holds ls + 1\<rparr>)\<rparr>)
   }"

definition dwell_config :: "SimRequest \<Rightarrow> BusLineSpec list \<Rightarrow> vehicle \<Rightarrow> int" where
  "dwell_config req lines v =
     (if bus_lines req \<noteq> None then
        (case find (\<lambda>L. Some (bl_id L) = line v) lines of
           Some L \<Rightarrow> bl_dwell_sec L
         | None \<Rightarrow> dwell_sec req)
      else dwell_sec req)"

text \<open>Admitted: the dwell starts, the bus takes a berth, stop and line statistics move.\<close>

definition enter_stop ::
  "SimRequest \<Rightarrow> BusLineSpec list \<Rightarrow> vehicle \<Rightarrow> stops_state \<Rightarrow> int \<Rightarrow> real \<Rightarrow> string \<Rightarrow>
   string list \<Rightarrow> (vehicle \<times> stops_state) option" where
  "enter_stop req lines v s t_int sx name occ = do {
     let du = t_int + dwell_config req lines v;
     let v' = v\<lparr>dwell_until := Some du, at_stop := Some sx, x_pos := sx - 0.1,
                 stopped := True, stopped_at_station := True, queueing := False\<rparr>;
     let occ' = occ @ [vid v];
     rel \<leftarrow> stop_release_time s sx;
     mon_s \<leftarrow> monitor_stops s name;
     let arrivals' = st_arrivals mon_s + 1;
     let dwell_now = du - t_int;
     let sum_dwell' = sum_dwell mon_s + of_int dwell_now;
     (if arrivals' = 0 then None else do {
        let queue_now' = max 0 (int (length occ') - int STOP_BERTHS);
        let mon_s' = mon_s\<lparr>st_arrivals := arrivals', sum_dwell := sum_dwell',
                            avg_dwell := sum_dwell' / of_int arrivals',
                            queue_now := queue_now',
                            queue_max := max (queue_max mon_s) queue_now'\<rparr>;
        let lid = line_or_BUS v;
        ls \<leftarrow> monitor_lines s lid;
        Some (v',
              s\<lparr>stop_occupancy := (stop_occupancy s)(sx \<mapsto> occ'),
                stop_release_time := (stop_release_time s)(sx \<mapsto> rel @ [du]),
                last_arrival_time := (last_arrival_time s)(sx \<mapsto> Some t_int),
                monitor_stops := (monitor_stops s)(name \<mapsto> mon_s'),
                monitor_lines := (monitor_lines s)(lid \<mapsto>
                   ls\<lparr>arrivals := arrivals ls + 1, arr_times := arr_times ls @ [t_int]\<rparr>)\<rparr>)
      })
   }"

text \<open>
  The decision at a stop that this tick's motion would cross: hold when the stop is full
  or the last arrival is at most \<open>COINCIDENCE_WINDOW\<close> seconds old, enter otherwise.
\<close>

definition approach_stop ::
  "SimRequest \<Rightarrow> BusLineSpec list \<Rightarrow> vehicle \<Rightarrow> stops_state \<Rightarrow> int \<Rightarrow> real \<Rightarrow>
   (vehicle \<times> stops_state) option" where
  "approach_stop req lines v s t_int sx = do {
     name \<leftarrow> stop_name sx;
     occ \<leftarrow> stop_occupancy s sx;
     (if length occ \<ge> STOP_BERTHS then queue_hold v s sx
      else do {
        last_t \<leftarrow> last_arrival_time s sx;
        (if (case last_t of None \<Rightarrow> False | Some la \<Rightarrow> t_int - la \<le> COINCIDENCE_WINDOW)
         then queue_hold v s sx
         else enter_stop req lines v s t_int sx name occ)
      })
   }"

text \<open>
  The loop over \<open>bus_stops\<close>: the first stop with \<open>x < sx \<le> x_try\<close> decides and returns;
  \<open>Some None\<close> says that no stop is crossed and the stop-line rule comes next.
\<close>

fun check_stops ::
  "SimRequest \<Rightarrow> BusLineSpec list \<Rightarrow> vehicle \<Rightarrow> stops_state \<Rightarrow> int \<Rightarrow> real \<Rightarrow> real \<Rightarrow>
   real list \<Rightarrow> (vehicle \<times> stops_state) option option" where
  "check_stops req lines v s t_int x x_try [] = Some None"
| "check_stops req lines v s t_int x x_try (sx # rest) =
     (if x < sx \<and> sx \<le> x_try then
        (case approach_stop req lines v s t_int sx of
           None \<Rightarrow> None
         | Some r \<Rightarrow> Some (Some r))
      else check_stops req lines v s t_int x x_try rest)"

definition bus_move ::
  "SimRequest \<Rightarrow> BusLineSpec list \<Rightarrow> vehicle \<Rightarrow> stops_state \<Rightarrow> int \<Rightarrow> (string \<rightharpoonup> bool) \<Rightarrow>
   real \<Rightarrow> real \<Rightarrow> (vehicle \<times> stops_state) option" where
  "bus_move req lines v s t_int green_now x x_try =
     (case check_stops req lines v s t_int x x_try bus_stops of
        None \<Rightarrow> None
      | Some (Some r) \<Rightarrow> Some r
      | Some None \<Rightarrow> Some (stopline_move v green_now x x_try, s))"

definition update_one ::
  "SimRequest \<Rightarrow> BusLineSpec list \<Rightarrow> stops_state \<Rightarrow> vehicle \<Rightarrow> int \<Rightarrow> (string \<rightharpoonup> bool) \<Rightarrow>
   (vehicle \<times> stops_state) option" where
  "update_one req lines s v t_int green_now =
     (let x = x_pos v; x_try = x + vel v in
      if kind v = Bus then
        (case dwell_until v of
           Some du \<Rightarrow>
             if t_int < du then
               Some (v\<lparr>stopped := True, stopped_at_station := True, x_pos := x\<rparr>, s)
             else
               (case at_stop v of
                  Some sx0 \<Rightarrow>
                    (case leave_stop v s sx0 of
                       None \<Rightarrow> None
                     | Some (v', s') \<Rightarrow>
                         bus_move req lines v' s' t_int green_now
                           (max x (sx0 + 0.2)) (max x_try (sx0 + 0.2)))
                | None \<Rightarrow> bus_move req lines v s t_int green_now x x_try)
         | None \<Rightarrow> bus_move req lines v s t_int green_now x x_try)
      else Some (stopline_move v green_now x x_try, s))"

subsection \<open>Random draws\<close>

text \<open>
  The run draws from two generators: Python's \<open>random\<close> (a stream of values of
  \<open>random.random()\<close>, each in \<open>[0, 1)\<close>) and numpy's normal generator (a stream of standard
  normal values). Both streams are inputs; the state is how far each has been read.
\<close>

record rng_state =
  uniform_draws :: "nat \<Rightarrow> real"
  next_uniform :: nat
  normal_draws :: "nat \<Rightarrow> real"
  next_normal :: nat

definition py_random :: "rng_state \<Rightarrow> real \<times> rng_state" where
  "py_random r = (uniform_draws r (next_uniform r), r\<lparr>next_uniform := Suc (next_uniform r)\<rparr>)"

text \<open>\<open>random.uniform(a, b)\<close> is \<open>a + (b - a) * random()\<close>.\<close>

definition py_uniform :: "real \<Rightarrow> real \<Rightarrow> rng_state \<Rightarrow> real \<times> rng_state" where
  "py_uniform a b r = (let (u, r') = py_random r in (a + (b - a) * u, r'))"

text \<open>\<open>np.random.lognormal(mean, sigma)\<close> is \<open>exp(mean + sigma * z)\<close> for a standard normal \<open>z\<close>.\<close>

definition np_lognormal :: "real \<Rightarrow> real \<Rightarrow> rng_state \<Rightarrow> real \<times> rng_state" where
  "np_lognormal mean sigma r =
     (exp (mean + sigma * normal_draws r (next_normal r)),
      r\<lparr>next_normal := Suc (next_normal r)\<rparr>)"

definition np_clip :: "real \<Rightarrow> real \<Rightarrow> real \<Rightarrow> real" where
  "np_clip a a_min a_max = min (max a a_min) a_max"

subsection \<open>Car demand\<close>

text \<open>
  The mean headway: the theoretical value clamped into a band chosen by the target
  volume. \<open>G * 3600.0 / C\<close> raises when \<open>C = 0\<close>.
\<close>

definition headway_mu :: "int \<Rightarrow> int \<Rightarrow> int \<Rightarrow> real option" where
  "headway_mu C G target =
     (if C = 0 then None
      else
        let mu_theory = (of_int G * 3600 / of_int C) / of_int (max 1 target);
            (mu_min, mu_max) =
               (if target \<ge> 2000 then (0.9, 2.2)
                else if target \<ge> 1800 then (1.1, 2.5)
                else if target \<le> 800 then (2.8, 4.6)
                else (1.6, 3.2))
        in Some (np_clip mu_theory mu_min mu_max))"

definition headway_sigma :: "int \<Rightarrow> real" where
  "headway_sigma target = (if target \<ge> 1600 then 0.25 else 0.35)"

definition sample_headway :: "real \<Rightarrow> real \<Rightarrow> rng_state \<Rightarrow> real \<times> rng_state" where
  "sample_headway mu sigma r =
     (let (h, r') = np_lognormal (ln mu) sigma r in (np_clip h 0.6 6.0, r'))"

text \<open>The platoon of a high-volume green window: \<open>for _ in range(3)\<close>.\<close>

fun burst_loop ::
  "nat \<Rightarrow> real \<Rightarrow> real \<Rightarrow> int \<Rightarrow> real list \<Rightarrow> rng_state \<Rightarrow> real list \<times> rng_state" where
  "burst_loop 0 t_burst t_end STEPS deps r = (deps, r)"
| "burst_loop (Suc n) t_burst t_end STEPS deps r =
     (if t_burst < t_end \<and> t_burst < of_int STEPS then
        let (u, r') = py_uniform 0.35 0.6 r
        in burst_loop n (t_burst + u) t_end STEPS (deps @ [t_burst]) r'
      else burst_loop n t_burst t_end STEPS deps r)"

text \<open>
  The departures of one green window: \<open>while t < t_end and t < STEPS\<close>. Every step adds
  a sampled headway of at least 0.6 to \<open>t\<close>, which is why the loop ends.
\<close>

function green_window_loop ::
  "real \<Rightarrow> real \<Rightarrow> real \<Rightarrow> int \<Rightarrow> real \<Rightarrow> real list \<Rightarrow> rng_state \<Rightarrow> real list \<times> rng_state" where
  "green_window_loop mu sigma t_end STEPS t deps r =
     (if t < t_end \<and> t < of_int STEPS then
        green_window_loop mu sigma t_end STEPS
          (t + fst (sample_headway mu sigma (snd (py_uniform (-0.10) 0.10 r))))
          (deps @ [t + fst (py_uniform (-0.10) 0.10 r)])
          (snd (sample_headway mu sigma (snd (py_uniform (-0.10) 0.10 r))))
      else (deps, r))"
  by pat_completeness auto
termination
proof (relation "measure (\<lambda>(mu, sigma, t_end, STEPS, t, deps, r).
                   nat \<lceil>(min t_end (of_int STEPS) - t) / 0.6\<rceil>)", goal_cases)
  case 1
  show ?case by simp
next
  case (2 mu sigma t_end STEPS t deps r)
  define b where "b = min t_end (of_int STEPS)"
  define h where "h = fst (sample_headway mu sigma (snd (py_uniform (-0.10) 0.10 r)))"
  have h: "0.6 \<le> h"
    by (simp add: h_def sample_headway_def np_clip_def np_lognormal_def split: prod.splits)
  from 2 have tb: "t < b" by (simp add: b_def)
  have "(b - (t + h)) / 0.6 \<le> (b - t) / 0.6 - 1"
    using h by (simp add: field_simps)
  then have le: "\<lceil>(b - (t + h)) / 0.6\<rceil> \<le> \<lceil>(b - t) / 0.6\<rceil> - 1"
    by (metis ceiling_mono ceiling_diff_one)
  from tb have "0 < (b - t) / 0.6" by simp
  then have "0 < \<lceil>(b - t) / 0.6\<rceil>" by simp
  with le have "nat \<lceil>(b - (t + h)) / 0.6\<rceil> < nat \<lceil>(b - t) / 0.6\<rceil>" by linarith
  then show ?case by (simp add: b_def h_def)
qed

text \<open>
  The loop over the cycles, \<open>while True\<close> with its \<open>break\<close>; it does not end when the cycle
  length is not positive, and \<open>None\<close> is that outcome.
\<close>

partial_function (option) demand_loop ::
  "int \<Rightarrow> int \<Rightarrow> int \<Rightarrow> int \<Rightarrow> int \<Rightarrow> real \<Rightarrow> real \<Rightarrow> int \<Rightarrow> real list \<Rightarrow> rng_state \<Rightarrow>
   (real list \<times> rng_state) option" where
  "demand_loop C G STEPS off1 target mu sigma k deps r =
     (let t0 = k * C - off1 in
      if t0 > STEPS then Some (deps, r)
      else
        let (u, r1) = py_uniform 0.25 0.9 r;
            t = max 0 (of_int t0) + u;
            t_end = of_int (t0 + G);
            (deps1, r2) =
               (if target \<ge> 1800 then
                  let (ub, rb) = py_uniform 0.2 0.6 r1
                  in burst_loop 3 (max 0 (of_int t0) + ub) t_end STEPS deps rb
                else (deps, r1));
            (deps2, r3) = green_window_loop mu sigma t_end STEPS t deps1 r2
        in demand_loop C G STEPS off1 target mu sigma (k + 1) deps2 r3)"

definition target_vph_of :: "SimRequest \<Rightarrow> int" where
  "target_vph_of req = (case cars_per_hour req of None \<Rightarrow> 1700 | Some c \<Rightarrow> c)"

text \<open>The sorted timeline \<open>car_depart_times\<close> of a request.\<close>

definition car_depart_times_of ::
  "SimRequest \<Rightarrow> (string \<rightharpoonup> int) \<Rightarrow> rng_state \<Rightarrow> (real list \<times> rng_state) option" where
  "car_depart_times_of req offsets r = do {
     let C = cycle req;
     let G = green_of C;
     let target = target_vph_of req;
     mu \<leftarrow> headway_mu C G target;
     off1 \<leftarrow> offsets ''J1'';
     (deps, r') \<leftarrow> demand_loop C G (STEPS_of req) off1 target mu (headway_sigma target) 0 [] r;
     Some (sort deps, r')
   }"

subsection \<open>Bus schedules\<close>

definition default_lines :: "BusLineSpec list" where
  "default_lines =
     [\<lparr>bl_id = ''R61'', bl_headway_sec = 240, bl_jitter_sec = 30, bl_dwell_sec = 25,
       bl_phase_offset_sec = 0\<rparr>,
      \<lparr>bl_id = ''235'', bl_headway_sec = 300, bl_jitter_sec = 35, bl_dwell_sec = 20,
       bl_phase_offset_sec = 60\<rparr>,
      \<lparr>bl_id = ''236'', bl_headway_sec = 300, bl_jitter_sec = 35, bl_dwell_sec = 22,
       bl_phase_offset_sec = 120\<rparr>,
      \<lparr>bl_id = ''251'', bl_headway_sec = 360, bl_jitter_sec = 40, bl_dwell_sec = 25,
       bl_phase_offset_sec = 180\<rparr>,
      \<lparr>bl_id = ''252'', bl_headway_sec = 420, bl_jitter_sec = 45, bl_dwell_sec = 25,
       bl_phase_offset_sec = 210\<rparr>,
      \<lparr>bl_id = ''644'', bl_headway_sec = 480, bl_jitter_sec = 50, bl_dwell_sec = 28,
       bl_phase_offset_sec = 240\<rparr>]"

text \<open>\<open>req.bus_lines or [...]\<close>: a missing or empty list gives the preset.\<close>

definition lines_of :: "SimRequest \<Rightarrow> BusLineSpec list" where
  "lines_of req =
     (case bus_lines req of None \<Rightarrow> default_lines | Some [] \<Rightarrow> default_lines | Some ls \<Rightarrow> ls)"

text \<open>
  The departures of one line, \<open>while t_bus < STEPS\<close>. Nothing forces \<open>t_bus\<close> to grow (a
  headway of 0 with no jitter keeps it in place), so the loop may not end: \<open>None\<close>.
\<close>

partial_function (option) line_schedule_loop ::
  "bool \<Rightarrow> BusLineSpec \<Rightarrow> int \<Rightarrow> real \<Rightarrow> real list \<Rightarrow> rng_state \<Rightarrow>
   (real list \<times> rng_state) option" where
  "line_schedule_loop bunching L STEPS t_bus deps r =
     (if t_bus < of_int STEPS then
        let deps1 = deps @ [t_bus];
            (deps2, r2) =
               (if bunching then
                  let (u, r1) = py_random r in
                  if u < 0.25 then
                    let (g, r1') = py_uniform (0.3 * of_int (bl_headway_sec L))
                                     (0.55 * of_int (bl_headway_sec L)) r1
                    in (if t_bus + g < of_int STEPS then deps1 @ [t_bus + g] else deps1, r1')
                  else (deps1, r1)
                else (deps1, r));
            (jitter, r3) = py_uniform (- of_int (bl_jitter_sec L)) (of_int (bl_jitter_sec L)) r2
        in line_schedule_loop bunching L STEPS
             (max 0 (t_bus + of_int (bl_headway_sec L) + jitter)) deps2 r3
      else Some (deps, r))"

definition first_departure :: "int \<Rightarrow> BusLineSpec \<Rightarrow> real" where
  "first_departure STEPS L =
     max 5 (min 15 (0.05 * of_int STEPS))
       + of_int (bl_phase_offset_sec L mod max 1 (bl_headway_sec L))"

fun bus_schedule ::
  "bool \<Rightarrow> int \<Rightarrow> BusLineSpec list \<Rightarrow> (string \<rightharpoonup> real list) \<Rightarrow> rng_state \<Rightarrow>
   ((string \<rightharpoonup> real list) \<times> rng_state) option" where
  "bus_schedule bunching STEPS [] schedule r = Some (schedule, r)"
| "bus_schedule bunching STEPS (L # Ls) schedule r = do {
     (deps, r') \<leftarrow> line_schedule_loop bunching L STEPS (first_departure STEPS L) [] r;
     bus_schedule bunching STEPS Ls (schedule(bl_id L \<mapsto> sort deps)) r'
   }"

subsection \<open>One tick of the main loop\<close>

record bus_delay =
  bd_signal :: real
  bd_queue :: real
  bd_dwell :: real
  bd_exited :: int

record run_acc =
  car_exited :: int
  car_zero_stop :: int
  car_delay_sum :: real
  car_stops_sum :: int
  car_travel_sum :: real
  car_exit_ts :: "int list"
  bus_delay_line :: "string \<rightharpoonup> bus_delay"
  arrived :: int

text \<open>
  A frame keeps the tick and the signal phases; the rendered vehicle list is a read-only
  sample of the active vehicles and is left out.
\<close>

record frame =
  frame_t :: int
  frame_signals :: "(string \<times> phase) list"

record sim_state =
  vehicles :: "vehicle list"
  stops :: stops_state
  acc :: run_acc
  car_i :: nat
  bus_spawn_index :: "string \<rightharpoonup> nat"
  rng :: rng_state
  frames :: "frame list"

text \<open>What a run fixes before the loop starts.\<close>

record sim_env =
  env_req :: SimRequest
  env_lines :: "BusLineSpec list"
  env_offsets :: "string \<rightharpoonup> int"
  env_car_depart_times :: "real list"
  env_schedule :: "string \<rightharpoonup> real list"

definition new_car :: "real \<Rightarrow> int \<Rightarrow> nat \<Rightarrow> real \<Rightarrow> real \<Rightarrow> real \<Rightarrow> vehicle" where
  "new_car V t i dt y_draw v_draw =
     \<lparr>vid = ''car_'' @ string_of_nat i, kind = Car, x_pos = X_MIN + V * dt, y_pos = y_draw,
      vel = V * v_draw, stopped = False, enter_t = of_int t + dt, stops_count = 0,
      delay_s = 0, line = None, dwell_until = None, served_stops = [], at_stop = None,
      queueing = False, stopped_at_station = False, signal_delay_s = 0, queue_hold_s = 0,
      dwell_s = 0\<rparr>"

definition new_bus :: "real \<Rightarrow> int \<Rightarrow> string \<Rightarrow> nat \<Rightarrow> real \<Rightarrow> vehicle" where
  "new_bus V_BUS t lid idx dt =
     \<lparr>vid = ''bus_'' @ lid @ ''_'' @ string_of_nat idx, kind = Bus,
      x_pos = X_MIN + V_BUS * dt, y_pos = 0, vel = V_BUS, stopped = False,
      enter_t = of_int t + dt, stops_count = 0, delay_s = 0, line = Some lid,
      dwell_until = None, served_stops = [], at_stop = None, queueing = False,
      stopped_at_station = False, signal_delay_s = 0, queue_hold_s = 0, dwell_s = 0\<rparr>"

text \<open>
  The two spawning loops run over what is left of a departure list: the first argument
  list is \<open>car_depart_times[car_i:]\<close>, respectively \<open>times[idx:]\<close>.
\<close>

fun spawn_cars ::
  "real \<Rightarrow> int \<Rightarrow> real list \<Rightarrow> nat \<Rightarrow> vehicle list \<Rightarrow> rng_state \<Rightarrow> vehicle list \<times> nat \<times> rng_state" where
  "spawn_cars V t [] i vs r = (vs, i, r)"
| "spawn_cars V t (d # rest) i vs r =
     (if d < of_int t + 1 then
        let dt = max 0 (d - of_int t);
            (y_draw, r1) = py_uniform (-2) 2 r;
            (v_draw, r2) = py_uniform 0.92 1.05 r1
        in spawn_cars V t rest (Suc i) (vs @ [new_car V t i dt y_draw v_draw]) r2
      else (vs, i, r))"

fun spawn_line ::
  "real \<Rightarrow> int \<Rightarrow> string \<Rightarrow> real list \<Rightarrow> nat \<Rightarrow> vehicle list \<Rightarrow> vehicle list \<times> nat" where
  "spawn_line V_BUS t lid [] idx vs = (vs, idx)"
| "spawn_line V_BUS t lid (d # rest) idx vs =
     (if d < of_int t + 1 then
        let dt = max 0 (d - of_int t)
        in spawn_line V_BUS t lid rest (Suc idx) (vs @ [new_bus V_BUS t lid idx dt])
      else (vs, idx))"

fun spawn_buses ::
  "real \<Rightarrow> int \<Rightarrow> (string \<rightharpoonup> real list) \<Rightarrow> BusLineSpec list \<Rightarrow> (string \<rightharpoonup> nat) \<Rightarrow>
   vehicle list \<Rightarrow> (vehicle list \<times> (string \<rightharpoonup> nat)) option" where
  "spawn_buses V_BUS t schedule [] bsi vs = Some (vs, bsi)"
| "spawn_buses V_BUS t schedule (L # Ls) bsi vs = do {
     times \<leftarrow> schedule (bl_id L);
     idx \<leftarrow> bsi (bl_id L);
     let (vs', idx') = spawn_line V_BUS t (bl_id L) (drop idx times) idx vs;
     spawn_buses V_BUS t schedule Ls (bsi(bl_id L \<mapsto> idx')) vs'
   }"

fun signals_at ::
  "(string \<rightharpoonup> int) \<Rightarrow> int \<Rightarrow> int \<Rightarrow> string list \<Rightarrow> (string \<times> phase) list option" where
  "signals_at offsets C t [] = Some []"
| "signals_at offsets C t (nid # nids) = do {
     st \<leftarrow> ew_state offsets C (green_of C) yellow nid t;
     sts \<leftarrow> signals_at offsets C t nids;
     Some ((nid, st) # sts)
   }"

definition green_map :: "(string \<times> phase) list \<Rightarrow> (string \<rightharpoonup> bool)" where
  "green_map signals = map_of (map (\<lambda>(nid, st). (nid, st = Green)) signals)"

text \<open>The per-second bookkeeping after \<open>update_one\<close>, by kind of vehicle.\<close>

definition count_second :: "vehicle \<Rightarrow> vehicle" where
  "count_second nv =
     (if kind nv = Car then
        (if stopped nv then nv\<lparr>delay_s := delay_s nv + 1\<rparr> else nv)
      else if stopped_at_station nv then nv\<lparr>dwell_s := dwell_s nv + 1\<rparr>
      else if queueing nv then nv\<lparr>queue_hold_s := queue_hold_s nv + 1\<rparr>
      else if stopped nv then nv\<lparr>signal_delay_s := signal_delay_s nv + 1\<rparr>
      else nv)"

text \<open>Folding a vehicle that has left the corridor into the run totals.\<close>

definition score_exit :: "int \<Rightarrow> vehicle \<Rightarrow> run_acc \<Rightarrow> run_acc" where
  "score_exit t nv a =
     (if kind nv = Car then
        a\<lparr>car_exited := car_exited a + 1,
          car_zero_stop := (if stops_count nv = 0 then car_zero_stop a + 1 else car_zero_stop a),
          car_delay_sum := car_delay_sum a + delay_s nv,
          car_stops_sum := car_stops_sum a + stops_count nv,
          car_travel_sum := car_travel_sum a + ((of_int t + 1) - enter_t nv),
          car_exit_ts := car_exit_ts a @ [t + 1]\<rparr>
      else
        let lid = line_or_BUS nv;
            d = (case bus_delay_line a lid of
                   None \<Rightarrow> \<lparr>bd_signal = 0, bd_queue = 0, bd_dwell = 0, bd_exited = 0\<rparr>
                 | Some d0 \<Rightarrow> d0)
        in a\<lparr>bus_delay_line := (bus_delay_line a)(lid \<mapsto>
               d\<lparr>bd_signal := bd_signal d + signal_delay_s nv,
                 bd_queue := bd_queue d + queue_hold_s nv,
                 bd_dwell := bd_dwell d + dwell_s nv,
                 bd_exited := bd_exited d + 1\<rparr>)\<rparr>)"

text \<open>
  The loop over the vehicles of one tick: \<open>moved\<close>, the stop tables, the totals and
  \<open>out_count\<close> are its state.
\<close>

fun update_all ::
  "SimRequest \<Rightarrow> BusLineSpec list \<Rightarrow> int \<Rightarrow> (string \<rightharpoonup> bool) \<Rightarrow> vehicle list \<Rightarrow>
   vehicle list \<Rightarrow> stops_state \<Rightarrow> run_acc \<Rightarrow> int \<Rightarrow>
   (vehicle list \<times> stops_state \<times> run_acc \<times> int) option" where
  "update_all req lines t green_now [] moved s a out_count = Some (moved, s, a, out_count)"
| "update_all req lines t green_now (v # vs) moved s a out_count =
     (case update_one req lines s v t green_now of
        None \<Rightarrow> None
      | Some (nv0, s') \<Rightarrow>
          let nv = count_second nv0 in
          if x_pos nv > X_MAX + 30 then
            update_all req lines t green_now vs moved s' (score_exit t nv a) (out_count + 1)
          else
            update_all req lines t green_now vs (moved @ [nv]) s' a out_count)"

text \<open>\<open>sorted(vehicles, key=...)\<close> is stable: the buses in order, then the cars in order.\<close>

definition buses_first :: "vehicle list \<Rightarrow> vehicle list" where
  "buses_first vs = filter (\<lambda>z. kind z = Bus) vs @ filter (\<lambda>z. kind z \<noteq> Bus) vs"

definition tick :: "sim_env \<Rightarrow> int \<Rightarrow> sim_state \<Rightarrow> sim_state option" where
  "tick env t st = do {
     let req = env_req env;
     let (vs1, car_i', rng') =
           spawn_cars (cruise_speed req) t (drop (car_i st) (env_car_depart_times env))
             (car_i st) (vehicles st) (rng st);
     (vs2, bsi') \<leftarrow> spawn_buses (bus_speed req) t (env_schedule env) (env_lines env)
                      (bus_spawn_index st) vs1;
     signals \<leftarrow> signals_at (env_offsets env) (cycle req) t nodes;
     let green_now = green_map signals;
     (moved, s', a', out_count) \<leftarrow>
        update_all req (env_lines env) t green_now (buses_first vs2) [] (stops st) (acc st) 0;
     Some (st\<lparr>vehicles := moved, stops := s', acc := a'\<lparr>arrived := arrived a' + out_count\<rparr>,
              car_i := car_i', bus_spawn_index := bsi', rng := rng',
              frames := frames st @ [\<lparr>frame_t = t, frame_signals = signals\<rparr>]\<rparr>)
   }"

text \<open>\<open>for t in range(n)\<close>: the ticks \<open>0, ..., n - 1\<close> in order.\<close>

fun sim_loop :: "sim_env \<Rightarrow> nat \<Rightarrow> sim_state \<Rightarrow> sim_state option" where
  "sim_loop env 0 st = Some st"
| "sim_loop env (Suc n) st =
     (case sim_loop env n st of
        None \<Rightarrow> None
      | Some st' \<Rightarrow> tick env (int n) st')"

text \<open>The state before the first tick.\<close>

definition line_stats_init :: "BusLineSpec \<Rightarrow> line_stats" where
  "line_stats_init L =
     \<lparr>scheduled_headway_sec = bl_headway_sec L, arrivals = 0, holds = 0, tsp_extends = 0,
      queue_holds = 0, arr_times = []\<rparr>"

definition stop_stats_init :: stop_stats where
  "stop_stats_init =
     \<lparr>st_arrivals = 0, avg_dwell = 0, sum_dwell = 0, queue_max = 0, queue_now = 0\<rparr>"

definition stops_init :: "BusLineSpec list \<Rightarrow> stops_state" where
  "stops_init lines =
     \<lparr>stop_occupancy = map_of (map (\<lambda>sx. (sx, [])) bus_stops),
      stop_release_time = map_of (map (\<lambda>sx. (sx, [])) bus_stops),
      last_arrival_time = map_of (map (\<lambda>sx. (sx, None)) bus_stops),
      monitor_lines = map_of (rev (map (\<lambda>L. (bl_id L, line_stats_init L)) lines)),
      monitor_stops = map_of (map (\<lambda>sx. (the (stop_name sx), stop_stats_init)) bus_stops)\<rparr>"

definition acc_init :: run_acc where
  "acc_init =
     \<lparr>car_exited = 0, car_zero_stop = 0, car_delay_sum = 0, car_stops_sum = 0,
      car_travel_sum = 0, car_exit_ts = [], bus_delay_line = Map.empty, arrived = 0\<rparr>"

definition sim_init :: "BusLineSpec list \<Rightarrow> rng_state \<Rightarrow> sim_state" where
  "sim_init lines r =
     \<lparr>vehicles = [], stops = stops_init lines, acc = acc_init, car_i = 0,
      bus_spawn_index = map_of (map (\<lambda>L. (bl_id L, 0)) lines), rng = r, frames = []\<rparr>"

subsection \<open>Invariants of the stop tables and the totals\<close>

text \<open>No stop holds more buses than it has berths.\<close>

definition within_capacity :: "stops_state \<Rightarrow> bool" where
  "within_capacity s \<longleftrightarrow>
     (\<forall>sx occ. stop_occupancy s sx = Some occ \<longrightarrow> length occ \<le> STOP_BERTHS)"

text \<open>
  One exit time is recorded per exited car, and one arrival time per counted arrival of
  a line.
\<close>

definition exits_counted :: "run_acc \<Rightarrow> bool" where
  "exits_counted a \<longleftrightarrow> car_exited a = int (length (car_exit_ts a))"

definition arrivals_counted :: "stops_state \<Rightarrow> bool" where
  "arrivals_counted s \<longleftrightarrow>
     (\<forall>lid ls. monitor_lines s lid = Some ls \<longrightarrow> arrivals ls = int (length (arr_times ls)))"

subsection \<open>KPIs and the monitor at the end of a run\<close>

text \<open>
  Python's \<open>round(x)\<close> rounds to the nearest integer, ties to the even one; \<open>round(x, n)\<close>
  does the same at the \<open>n\<close>-th decimal.
\<close>

definition py_round :: "real \<Rightarrow> int" where
  "py_round x =
     (let f = \<lfloor>x\<rfloor>; d = x - of_int f in
      if d < 1 / 2 then f
      else if d > 1 / 2 then f + 1
      else if even f then f else f + 1)"

definition py_round_n :: "real \<Rightarrow> nat \<Rightarrow> real" where
  "py_round_n x n = of_int (py_round (x * 10 ^ n)) / 10 ^ n"

text \<open>\<open>np.diff\<close>, and the list comprehension \<open>[ts[i] - ts[i-1] for i in range(1, len(ts))]\<close>.\<close>

fun np_diff :: "int list \<Rightarrow> int list" where
  "np_diff (a # b # rest) = (b - a) # np_diff (b # rest)"
| "np_diff _ = []"

definition mean_of :: "int list \<Rightarrow> real" where
  "mean_of ds = of_int (sum_list ds) / of_nat (length ds)"

definition avg_headway_of :: "int list \<Rightarrow> real option" where
  "avg_headway_of exit_ts =
     (if length exit_ts \<ge> 2 then Some (mean_of (np_diff exit_ts)) else None)"

record kpis =
  kpi_mode :: string
  kpi_frames :: nat
  estimated_vph :: int
  avg_discharge_headway_s :: "real option"
  progression_rate :: real
  avg_stops_main :: real
  avg_delay_main :: real
  avg_travel_time_s :: real
  target_vph :: int
  total_arrived :: int

definition compute_kpis :: "SimRequest \<Rightarrow> sim_state \<Rightarrow> kpis" where
  "compute_kpis req st =
     (let a = acc st;
          exited = of_int (max 1 (car_exited a)) :: real;
          avg_headway = avg_headway_of (car_exit_ts a)
      in \<lparr>kpi_mode = mode req,
          kpi_frames = length (frames st),
          estimated_vph =
            py_round (of_int (car_exited a) * 3600 / of_int (max 1 (STEPS_of req))),
          avg_discharge_headway_s =
            (case avg_headway of None \<Rightarrow> None | Some h \<Rightarrow> Some (py_round_n h 2)),
          progression_rate = py_round_n (of_int (car_zero_stop a) / exited) 4,
          avg_stops_main = py_round_n (of_int (car_stops_sum a) / exited) 3,
          avg_delay_main = py_round_n (car_delay_sum a / exited) 2,
          avg_travel_time_s = py_round_n (car_travel_sum a / exited) 2,
          target_vph = target_vph_of req,
          total_arrived = arrived a\<rparr>)"

text \<open>
  What the monitor reports for a line: the counters, and the three headway statistics in
  place of the list of arrival times.
\<close>

record line_report =
  lr_scheduled_headway_sec :: int
  lr_arrivals :: int
  lr_holds :: int
  lr_tsp_extends :: int
  lr_queue_holds :: int
  observed_headway_avg :: "real option"
  observed_headway_std :: "real option"
  on_time_pct :: "real option"

definition finalize_line :: "int \<Rightarrow> line_stats \<Rightarrow> line_report" where
  "finalize_line tol stats =
     (let ts = arr_times stats;
          rep = \<lparr>lr_scheduled_headway_sec = scheduled_headway_sec stats,
                 lr_arrivals = arrivals stats, lr_holds = holds stats,
                 lr_tsp_extends = tsp_extends stats, lr_queue_holds = queue_holds stats,
                 observed_headway_avg = None, observed_headway_std = None,
                 on_time_pct = None\<rparr>
      in if length ts \<ge> 2 then
           let diffs = np_diff ts;
               n = of_nat (length diffs) :: real;
               avg = of_int (sum_list diffs) / n;
               var = sum_list (map (\<lambda>d. (of_int d - avg)\<^sup>2) diffs) / n;
               target = scheduled_headway_sec stats;
               on_time = length (filter (\<lambda>d. \<bar>d - target\<bar> \<le> tol) diffs)
           in rep\<lparr>observed_headway_avg := Some (py_round_n avg 1),
                   observed_headway_std := Some (py_round_n (sqrt var) 1),
                   on_time_pct := Some (py_round_n (100 * of_nat on_time / n) 1)\<rparr>
         else rep)"

record sim_result =
  res_frames :: "frame list"
  res_kpis :: kpis
  res_lines :: "string \<rightharpoonup> line_report"
  res_stops :: "string \<rightharpoonup> stop_stats"

definition finalize :: "SimRequest \<Rightarrow> sim_state \<Rightarrow> sim_result" where
  "finalize req st =
     \<lparr>res_frames = frames st,
      res_kpis = compute_kpis req st,
      res_lines = (\<lambda>lid. map_option (finalize_line (ab_tolerance_sec req))
                            (monitor_lines (stops st) lid)),
      res_stops = monitor_stops (stops st)\<rparr>"

subsection \<open>The whole run\<close>

text \<open>
  \<open>run_sim\<close>: the plan, the demand, the schedules, \<open>STEPS\<close> ticks, the report. \<open>None\<close> is
  the error response (or a loop that does not end).
\<close>

definition run_sim :: "SimRequest \<Rightarrow> rng_state \<Rightarrow> sim_result option" where
  "run_sim req r = do {
     offsets \<leftarrow> offsets_of req;
     (car_depart_times, r1) \<leftarrow> car_depart_times_of req offsets r;
     let lines = lines_of req;
     (schedule, r2) \<leftarrow> bus_schedule (simulate_bunching req) (STEPS_of req) lines Map.empty r1;
     let env = \<lparr>env_req = req, env_lines = lines, env_offsets = offsets,
                 env_car_depart_times = car_depart_times, env_schedule = schedule\<rparr>;
     st \<leftarrow> sim_loop env (nat (STEPS_of req)) (sim_init lines r2);
     Some (finalize req st)
   }"

subsection \<open>Example data\<close>

text \<open>A request with the default settings at 36 km/h, and the first line of the preset.\<close>

definition demo_req :: SimRequest where
  "demo_req =
     \<lparr>mode = ''fixed'', steps = 180, cycle = 90, v_prog_kmh = 36, cars_per_hour = None,
      bus_headway_sec = Some 300, ab_tolerance_sec = 120, dwell_sec = 20,
      simulate_bunching = True, anti_bunching = True, tsp = None, bus_lines = None\<rparr>"

definition demo_lines :: "BusLineSpec list" where
  "demo_lines =
     [\<lparr>bl_id = ''R61'', bl_headway_sec = 240, bl_jitter_sec = 30, bl_dwell_sec = 25,
       bl_phase_offset_sec = 0\<rparr>]"

definition demo_rng :: rng_state where
  "demo_rng =
     \<lparr>uniform_draws = (\<lambda>n. 1 / 2), next_uniform = 0, normal_draws = (\<lambda>n. 0), next_normal = 0\<rparr>"

definition demo_env :: sim_env where
  "demo_env =
     \<lparr>env_req = demo_req, env_lines = demo_lines,
      env_offsets = [''J1'' \<mapsto> 0, ''J2'' \<mapsto> 0, ''J3'' \<mapsto> 0, ''J4'' \<mapsto> 0, ''J5'' \<mapsto> 0],
      env_car_depart_times = [1 / 2], env_schedule = [''R61'' \<mapsto> [1 / 4]]\<rparr>"


text \<open>
  A car that entered at second 35.8 with speed factor 1 (10 units per tick) and has
  advanced 19 times: it stands 2 units before the stop line of J1.
\<close>

definition demo_car :: vehicle where
  "demo_car = (new_car 10 35 0 (4 / 5) (6 / 13) 1)\<lparr>x_pos := -602\<rparr>"


text \<open>
  A run with one car and no bus: the car leaves at second 35.8, and every uniform draw is
  \<open>8/13\<close>, which makes its speed factor \<open>0.92 + 0.13 * 8/13 = 1\<close>, 10 units per tick.
\<close>

definition demo_rng_car :: rng_state where
  "demo_rng_car =
     \<lparr>uniform_draws = (\<lambda>n. 8 / 13), next_uniform = 0, normal_draws = (\<lambda>n. 0),
      next_normal = 0\<rparr>"

definition demo_env_car :: sim_env where
  "demo_env_car =
     \<lparr>env_req = demo_req, env_lines = demo_lines,
      env_offsets = [''J1'' \<mapsto> 0, ''J2'' \<mapsto> 0, ''J3'' \<mapsto> 0, ''J4'' \<mapsto> 0, ''J5'' \<mapsto> 0],
      env_car_depart_times = [35.8], env_schedule = [''R61'' \<mapsto> []]\<rparr>"

text \<open>The shortest run on the shortest cycle, at 600 vehicles per hour.\<close>

definition demo_req_short :: SimRequest where
  "demo_req_short = demo_req\<lparr>steps := 60, cycle := 30, cars_per_hour := Some 600\<rparr>"

definition demo_offsets :: "string \<rightharpoonup> int" where
  "demo_offsets = [''J1'' \<mapsto> 0, ''J2'' \<mapsto> 0, ''J3'' \<mapsto> 0, ''J4'' \<mapsto> 0, ''J5'' \<mapsto> 0]"


section \<open>Properties of the TSP policy and controller\<close>

text \<open>
  C2 (as amended). For every headway \<open>h\<close>, target \<open>H\<close>, tolerance \<open>delta \<ge> 0\<close> and limits
  \<open>maxExtend\<close>, \<open>maxAdvance\<close>: \<open>tsp_policy\<close> grants with \<open>extend_s = maxExtend\<close>,
  \<open>advance = maxAdvance\<close>, \<open>hold = 0\<close> when \<open>h > H + delta\<close>; refuses with \<open>hold = 15\<close> and
  no extension or advance when \<open>h < H - delta\<close>; and otherwise refuses with everything
  zero, in particular at the two boundary headways \<open>H + delta\<close> and \<open>H - delta\<close>, both
  comparisons being strict.
\<close>

theorem C2_tsp_policy_cases:
  fixes h H delta :: real and maxExtend maxAdvance cd :: int
  assumes "0 \<le> delta"
  shows "(h > H + delta \<longrightarrow>
            tsp_policy h H delta maxExtend maxAdvance cd =
              \<lparr>grant = True, extend_s = maxExtend, advance = maxAdvance, hold = 0,
               reason = LateBus h (H + delta)\<rparr>)
       \<and> (h < H - delta \<longrightarrow>
            tsp_policy h H delta maxExtend maxAdvance cd =
              \<lparr>grant = False, extend_s = 0, advance = 0, hold = 15,
               reason = EarlyBus h (H - delta)\<rparr>)
       \<and> (\<not> h > H + delta \<and> \<not> h < H - delta \<longrightarrow>
            tsp_policy h H delta maxExtend maxAdvance cd =
              \<lparr>grant = False, extend_s = 0, advance = 0, hold = 0,
               reason = NormalHeadway h (H - delta) (H + delta)\<rparr>)
       \<and> (h = H + delta \<or> h = H - delta \<longrightarrow>
            (let d = tsp_policy h H delta maxExtend maxAdvance cd
             in \<not> grant d \<and> extend_s d = 0 \<and> advance d = 0 \<and> hold d = 0))"
  using assms by (auto simp: tsp_policy_def TSPDecision_default_def Let_def)

theorem C2_tsp_policy_cases_witness:
  "tsp_policy 480 360 90 8 6 60 =
     \<lparr>grant = True, extend_s = 8, advance = 6, hold = 0, reason = LateBus 480 450\<rparr>
   \<and> tsp_policy 240 360 90 8 6 60 =
     \<lparr>grant = False, extend_s = 0, advance = 0, hold = 15, reason = EarlyBus 240 270\<rparr>
   \<and> tsp_policy 360 360 90 8 6 60 =
     \<lparr>grant = False, extend_s = 0, advance = 0, hold = 0, reason = NormalHeadway 360 270 450\<rparr>
   \<and> \<not> grant (tsp_policy 450 360 90 8 6 60) \<and> hold (tsp_policy 450 360 90 8 6 60) = 0
   \<and> \<not> grant (tsp_policy 270 360 90 8 6 60) \<and> hold (tsp_policy 270 360 90 8 6 60) = 0"
  using C2_tsp_policy_cases [where delta = 90 and h = 480 and H = 360 and maxExtend = 8
          and maxAdvance = 6 and cd = 60]
        C2_tsp_policy_cases [where delta = 90 and h = 240 and H = 360 and maxExtend = 8
          and maxAdvance = 6 and cd = 60]
        C2_tsp_policy_cases [where delta = 90 and h = 360 and H = 360 and maxExtend = 8
          and maxAdvance = 6 and cd = 60]
        C2_tsp_policy_cases [where delta = 90 and h = 450 and H = 360 and maxExtend = 8
          and maxAdvance = 6 and cd = 60]
        C2_tsp_policy_cases [where delta = 90 and h = 270 and H = 360 and maxExtend = 8
          and maxAdvance = 6 and cd = 60]
  by (simp add: Let_def)

text \<open>
  With a negative tolerance the two triggering conditions overlap and the first branch
  wins: at \<open>h = 360\<close>, \<open>H = 360\<close>, \<open>delta = -90\<close> the headway is below \<open>H - delta = 450\<close>, yet
  the decision is a grant with no hold.
\<close>

theorem C2_negative_tolerance_counterexample:
  "(360::real) < 360 - (-90)
   \<and> grant (tsp_policy 360 360 (-90) 8 6 60)
   \<and> hold (tsp_policy 360 360 (-90) 8 6 60) \<noteq> 15"
  by (simp add: tsp_policy_def TSPDecision_default_def)

text \<open>
  C4. After \<open>record_grant(n, t)\<close>, \<open>can_grant_tsp(n, t', cooldown)\<close> is false exactly when
  \<open>t' - t < cooldown\<close> and true exactly when \<open>t' - t \<ge> cooldown\<close>; hence of two grant attempts
  at the same node less than one cooldown apart, at most one records a grant.
\<close>

theorem C4_cooldown:
  fixes t t' t1 t2 :: real and cooldown :: int
  shows "(t' - t < real_of_int cooldown \<longrightarrow>
            \<not> can_grant_tsp (record_grant c n t e) n t' cooldown)
       \<and> (t' - t \<ge> real_of_int cooldown \<longrightarrow>
            can_grant_tsp (record_grant c n t e) n t' cooldown)
       \<and> (t2 - t1 < real_of_int cooldown \<longrightarrow>
            (let (c1, g1) = attempt_grant c n t1 cooldown e1;
                 (c2, g2) = attempt_grant c1 n t2 cooldown e2
             in \<not> (g1 \<and> g2)))"
  by (auto simp: can_grant_tsp_def record_grant_def attempt_grant_def Let_def)

theorem C4_cooldown_witness:
  "\<not> can_grant_tsp (record_grant TSPController_init ''J1'' 100 5) ''J1'' 130 60
   \<and> can_grant_tsp (record_grant TSPController_init ''J1'' 100 5) ''J1'' 170 60
   \<and> can_grant_tsp (record_grant TSPController_init ''J1'' 100 5) ''J1'' 160 60
   \<and> (let (c1, g1) = attempt_grant TSPController_init ''J1'' 100 60 5;
           (c2, g2) = attempt_grant c1 ''J1'' 130 60 5
       in g1 \<and> \<not> g2)"
  using C4_cooldown [where t' = 130 and t = 100 and cooldown = 60 and c = TSPController_init
          and n = "''J1''" and e = 5 and ?t2.0 = 130 and ?t1.0 = 100 and ?e1.0 = 5 and ?e2.0 = 5]
        C4_cooldown [where t' = 170 and t = 100 and cooldown = 60 and c = TSPController_init
          and n = "''J1''" and e = 5 and ?t2.0 = 130 and ?t1.0 = 100 and ?e1.0 = 5 and ?e2.0 = 5]
        C4_cooldown [where t' = 160 and t = 100 and cooldown = 60 and c = TSPController_init
          and n = "''J1''" and e = 5 and ?t2.0 = 130 and ?t1.0 = 100 and ?e1.0 = 5 and ?e2.0 = 5]
  by (simp add: attempt_grant_def can_grant_tsp_def record_grant_def
        TSPController_init_def get_cycle_extensions_def Let_def)

lemma get_cycle_extensions_reset:
  "get_cycle_extensions (reset_cycle c n t) m = (if m = n then 0 else get_cycle_extensions c m)"
  by (simp add: get_cycle_extensions_def reset_cycle_def)

lemma get_cycle_extensions_record:
  "get_cycle_extensions (record_grant c n t e) m =
     (if m = n then get_cycle_extensions c n + e else get_cycle_extensions c m)"
  by (simp add: get_cycle_extensions_def record_grant_def)

lemma apply_tsp_to_phase_bound:
  assumes "apply_tsp_to_phase g cur d mg budget = (a, True)"
  shows "0 < a \<and> cur + a \<le> budget"
  using assms by (auto simp: apply_tsp_to_phase_def Let_def split: if_splits)

lemma tsp_step_budget:
  assumes "0 \<le> budget" and "\<forall>m. get_cycle_extensions c m \<le> budget"
  shows "get_cycle_extensions (tsp_step budget c ev) m \<le> budget"
proof (cases ev)
  case (ResetCycle n t)
  with assms show ?thesis by (simp add: get_cycle_extensions_reset)
next
  case (RequestGrant n t remaining d mg)
  obtain a g where ag: "apply_tsp_to_phase remaining (get_cycle_extensions c n) d mg budget = (a, g)"
    by (cases "apply_tsp_to_phase remaining (get_cycle_extensions c n) d mg budget")
  show ?thesis
  proof (cases "g \<and> a > 0")
    case True
    with ag have "apply_tsp_to_phase remaining (get_cycle_extensions c n) d mg budget = (a, True)"
      by simp
    then have "get_cycle_extensions c n + a \<le> budget"
      by (simp add: apply_tsp_to_phase_bound)
    with True ag RequestGrant assms(2) show ?thesis
      by (simp add: get_cycle_extensions_record)
  next
    case False
    with ag RequestGrant assms(2) show ?thesis by auto
  qed
qed

lemma tsp_run_budget:
  assumes "0 \<le> budget" and "\<forall>m. get_cycle_extensions c m \<le> budget"
  shows "get_cycle_extensions (tsp_run budget c evs) m \<le> budget"
  using assms(2)
proof (induction evs arbitrary: c)
  case Nil
  then show ?case by simp
next
  case (Cons ev evs)
  have "\<forall>m. get_cycle_extensions (tsp_step budget c ev) m \<le> budget"
    using tsp_step_budget [OF assms(1) Cons.prems] by blast
  then show ?case using Cons.IH by simp
qed

text \<open>
  C3. \<open>apply_tsp_to_phase\<close> returns \<open>(min(decision.extend, maxCycleExtension -
  currentCycleExtensions), true)\<close> when the grant flag holds, the remaining budget is
  positive and the resulting extension is positive, and \<open>(0, false)\<close> when the grant flag is
  false or the budget is exhausted. Consequently, for a budget that is not negative and
  any sequence of cycle resets and of grants whose amounts come from
  \<open>apply_tsp_to_phase\<close> and are recorded with \<open>record_grant\<close>, starting from a fresh
  controller, the cumulative extension of every node since its last reset never exceeds
  the budget.
\<close>

theorem C3_extension_budget:
  "(grant d \<and> 0 < budget - cur \<and> 0 < min (extend_s d) (budget - cur) \<longrightarrow>
      apply_tsp_to_phase g cur d mg budget = (min (extend_s d) (budget - cur), True))
   \<and> (\<not> grant d \<or> budget - cur \<le> 0 \<longrightarrow>
      apply_tsp_to_phase g cur d mg budget = (0, False))
   \<and> (0 \<le> budget \<longrightarrow>
      get_cycle_extensions (tsp_run budget TSPController_init evs) n \<le> budget)"
proof (intro conjI impI)
  assume "grant d \<and> 0 < budget - cur \<and> 0 < min (extend_s d) (budget - cur)"
  then show "apply_tsp_to_phase g cur d mg budget = (min (extend_s d) (budget - cur), True)"
    by (auto simp: apply_tsp_to_phase_def Let_def min_def)
next
  assume "\<not> grant d \<or> budget - cur \<le> 0"
  then show "apply_tsp_to_phase g cur d mg budget = (0, False)"
    by (auto simp: apply_tsp_to_phase_def Let_def)
next
  assume b: "0 \<le> budget"
  then have "\<forall>m. get_cycle_extensions TSPController_init m \<le> budget"
    by (simp add: get_cycle_extensions_def TSPController_init_def)
  with b show "get_cycle_extensions (tsp_run budget TSPController_init evs) n \<le> budget"
    by (rule tsp_run_budget)
qed

text \<open>
  Two requests of 8 seconds against the default budget of 10: the first is granted in
  full, the second is cut to the 2 seconds that remain, a third gets nothing.
\<close>

theorem C3_extension_budget_witness:
  "apply_tsp_to_phase 20 0 (tsp_policy 480 360 90 8 6 60) 10 10 = (8, True)
   \<and> apply_tsp_to_phase 20 8 (tsp_policy 480 360 90 8 6 60) 10 10 = (2, True)
   \<and> apply_tsp_to_phase 20 10 (tsp_policy 480 360 90 8 6 60) 10 10 = (0, False)
   \<and> apply_tsp_to_phase 20 0 (tsp_policy 240 360 90 8 6 60) 10 10 = (0, False)
   \<and> get_cycle_extensions
        (tsp_run 10 TSPController_init
           [RequestGrant ''J1'' 100 20 (tsp_policy 480 360 90 8 6 60) 10,
            RequestGrant ''J1'' 200 20 (tsp_policy 480 360 90 8 6 60) 10,
            RequestGrant ''J1'' 300 20 (tsp_policy 480 360 90 8 6 60) 10]) ''J1'' = 10
   \<and> get_cycle_extensions
        (tsp_run 10 TSPController_init
           [RequestGrant ''J1'' 100 20 (tsp_policy 480 360 90 8 6 60) 10,
            RequestGrant ''J1'' 200 20 (tsp_policy 480 360 90 8 6 60) 10,
            RequestGrant ''J1'' 300 20 (tsp_policy 480 360 90 8 6 60) 10]) ''J1'' \<le> 10"
  using C3_extension_budget [where d = "tsp_policy 480 360 90 8 6 60" and budget = 10
          and cur = 0 and g = 20 and mg = 10 and n = "''J1''"
          and evs = "[RequestGrant ''J1'' 100 20 (tsp_policy 480 360 90 8 6 60) 10,
            RequestGrant ''J1'' 200 20 (tsp_policy 480 360 90 8 6 60) 10,
            RequestGrant ''J1'' 300 20 (tsp_policy 480 360 90 8 6 60) 10]"]
        C3_extension_budget [where d = "tsp_policy 480 360 90 8 6 60" and budget = 10
          and cur = 8 and g = 20 and mg = 10 and n = "''J1''" and evs = "[]"]
        C3_extension_budget [where d = "tsp_policy 480 360 90 8 6 60" and budget = 10
          and cur = 10 and g = 20 and mg = 10 and n = "''J1''" and evs = "[]"]
        C3_extension_budget [where d = "tsp_policy 240 360 90 8 6 60" and budget = 10
          and cur = 0 and g = 20 and mg = 10 and n = "''J1''" and evs = "[]"]
  by (simp add: tsp_policy_def TSPDecision_default_def apply_tsp_to_phase_def
        get_cycle_extensions_def record_grant_def TSPController_init_def Let_def)

section \<open>Properties of the offset computation\<close>

lemma py_fmod_range:
  assumes "0 < c"
  shows "0 \<le> py_fmod x c \<and> py_fmod x c < c"
proof -
  have lo: "of_int \<lfloor>x / c\<rfloor> \<le> x / c" by (rule of_int_floor_le)
  have hi: "x / c < of_int \<lfloor>x / c\<rfloor> + 1" by linarith
  from lo assms have "c * of_int \<lfloor>x / c\<rfloor> \<le> c * (x / c)"
    by (intro mult_left_mono) simp_all
  with assms have 1: "c * of_int \<lfloor>x / c\<rfloor> \<le> x" by simp
  from hi assms have "c * (x / c) < c * (of_int \<lfloor>x / c\<rfloor> + 1)"
    by (intro mult_strict_left_mono) simp_all
  with assms have 2: "x < c * of_int \<lfloor>x / c\<rfloor> + c" by (simp add: algebra_simps)
  from 1 2 show ?thesis by (simp add: py_fmod_def)
qed

lemma py_int_fmod_range:
  assumes "0 < cycle_s"
  shows "0 \<le> py_int (py_fmod x (of_int cycle_s)) \<and> py_int (py_fmod x (of_int cycle_s)) < cycle_s"
proof -
  from assms have "0 \<le> py_fmod x (of_int cycle_s) \<and> py_fmod x (of_int cycle_s) < of_int cycle_s"
    by (intro py_fmod_range) simp
  then show ?thesis by (simp add: py_int_def floor_less_iff)
qed

lemma compute_offsets_loop_closed:
  assumes "v_ms \<noteq> 0" and "cycle_s \<noteq> 0"
  shows "compute_offsets_loop v_ms cycle_s cum offs ds =
           Inr (offs @ map (\<lambda>i. py_int (py_fmod
                  (cum + sum_list (map (\<lambda>d. d / v_ms) (take (Suc i) ds))) (of_int cycle_s)))
                  [0..<length ds])"
proof (induction ds arbitrary: cum offs)
  case Nil
  then show ?case by simp
next
  case (Cons d ds)
  show ?case
    using assms by (simp add: Cons.IH Let_def map_upt_Suc add.assoc del: upt_Suc)
qed

lemma compute_offsets_closed:
  assumes "v \<noteq> 0" and "cycle_s \<noteq> 0"
  shows "compute_offsets ds cycle_s v =
           Inr (0 # map (\<lambda>i. py_int (py_fmod
                  (sum_list (map (\<lambda>d. d / (v / 3.6)) (take (Suc i) ds))) (of_int cycle_s)))
                  [0..<length ds])"
proof (cases "ds = []")
  case True
  then show ?thesis by (simp add: compute_offsets_def)
next
  case False
  from assms(1) have "v / 3.6 \<noteq> 0" by simp
  from compute_offsets_loop_closed [OF this assms(2), of 0 "[0]" ds] False
  show ?thesis by (simp add: compute_offsets_def Let_def)
qed




text \<open>
  C10. For every non-empty list of non-negative distances, every cycle length of at least
  1 and every positive speed, \<open>validate_offsets\<close> accepts what \<open>compute_offsets\<close> returns.
\<close>

theorem C10_validate_accepts_computed:
  assumes "ds \<noteq> []" and "\<forall>d \<in> set ds. 0 \<le> d" and "1 \<le> cycle_s" and "0 < v"
  shows "\<exists>offs. compute_offsets ds cycle_s v = Inr offs \<and> validate_offsets offs cycle_s"
proof -
  let ?f = "\<lambda>i. py_int (py_fmod
              (sum_list (map (\<lambda>d. d / (v / 3.6)) (take (Suc i) ds))) (of_int cycle_s))"
  let ?offs = "0 # map ?f [0..<length ds]"
  from assms have c: "0 < cycle_s" by simp
  from assms c have eq: "compute_offsets ds cycle_s v = Inr ?offs"
    by (intro compute_offsets_closed) simp_all
  have "\<forall>off \<in> set ?offs. 0 \<le> off \<and> off < cycle_s"
    using c py_int_fmod_range [OF c] by auto
  then have "\<not> (\<exists>off \<in> set ?offs. off < 0 \<or> off \<ge> cycle_s)"
    by (meson not_le)
  then have "validate_offsets ?offs cycle_s"
    unfolding validate_offsets_def by simp
  with eq show ?thesis by blast
qed

theorem C10_validate_accepts_computed_witness:
  "[300, 280 :: real] \<noteq> [] \<and> (0::real) \<le> 300 \<and> (0::real) \<le> 280 \<and> (1::int) \<le> 90
   \<and> (0::real) < 40
   \<and> (\<exists>offs. compute_offsets [300, 280] 90 40 = Inr offs \<and> validate_offsets offs 90)"
proof -
  have h1: "[300, 280 :: real] \<noteq> []" by simp
  have h2: "\<forall>d \<in> set [300, 280 :: real]. 0 \<le> d" by simp
  have h3: "(1::int) \<le> 90" by simp
  have h4: "(0::real) < 40" by simp
  from C10_validate_accepts_computed [OF h1 h2 h3 h4] show ?thesis by simp
qed

section \<open>Properties of the signal plan\<close>

lemma green_of_floor:
  assumes "0 \<le> C"
  shows "green_of C = (3 * C) div 5"
proof -
  have "(0.6::real) * of_int C = of_int (3 * C) / of_int 5" by simp
  then have "\<lfloor>(0.6::real) * of_int C\<rfloor> = (3 * C) div 5"
    by (simp only: floor_divide_of_int_eq)
  with assms show ?thesis by (simp add: green_of_def py_int_def)
qed

text \<open>\<open>compute_green_band\<close> takes the same truncated width for every node.\<close>

lemma compute_green_band_width:
  assumes "w \<in> set (compute_green_band node_ids offsets_map C 0.6)"
  shows "gw_width w = green_of C"
  using assms by (auto simp: compute_green_band_def green_of_def Let_def)

lemma round_six_tenths: "round ((0.6::real) * of_int C) = (6 * C + 5) div 10"
proof -
  have "(0.6::real) * of_int C + 1 / 2 = of_int (6 * C + 5) / of_int 10" by simp
  then have "\<lfloor>(0.6::real) * of_int C + 1 / 2\<rfloor> = (6 * C + 5) div 10"
    by (simp only: floor_divide_of_int_eq)
  then show ?thesis by (simp add: round_def)
qed

lemma div_ten_unique: "(10 * q + r) div 10 = q" if "0 \<le> r" "r < 10" for q r :: int
  using that by simp

lemma floor_vs_round_six_tenths: "(3 * C) div 5 = (6 * C + 5) div 10 - (if 3 * C mod 5 < 3 then 0 else 1)" for C :: int
proof -
  define q1 r1 where "q1 = (3 * C) div 5" and "r1 = (3 * C) mod 5"
  have a: "3 * C = 5 * q1 + r1" and b: "0 \<le> r1" "r1 < 5"
    by (simp_all add: q1_def r1_def)
  have c: "6 * C + 5 = 10 * q1 + (2 * r1 + 5)" using a by simp
  show ?thesis
  proof (cases "r1 < 3")
    case True
    then have "0 \<le> 2 * r1 + 5" "2 * r1 + 5 < 10" using b by simp_all
    then have "(10 * q1 + (2 * r1 + 5)) div 10 = q1"
      by (rule div_ten_unique)
    with True c show ?thesis by (simp add: q1_def r1_def)
  next
    case False
    then have "0 \<le> 2 * r1 - 5" "2 * r1 - 5 < 10" using b by simp_all
    then have "(10 * (q1 + 1) + (2 * r1 - 5)) div 10 = q1 + 1"
      by (rule div_ten_unique)
    moreover have "10 * (q1 + 1) + (2 * r1 - 5) = 6 * C + 5" using c by simp
    ultimately show ?thesis using False by (simp add: q1_def r1_def)
  qed
qed

text \<open>
  C7 (as amended). For every cycle length \<open>C\<close> in the accepted range \<open>[30, 180]\<close>, the green
  duration used by the signal plan is \<open>int(0.6 * C)\<close>, that is \<open>0.6 * C\<close> truncated, which is
  \<open>(3 * C) div 5\<close>: it equals \<open>round(0.6 * C)\<close> when \<open>3 * C mod 5 < 3\<close> and is one second
  less otherwise. The yellow duration is 6 seconds. A node's phase at tick \<open>t\<close> is Green
  when \<open>(t + offset) mod C\<close> is below the green duration, Yellow for the next 6 seconds,
  and Red otherwise.
\<close>

theorem C7_signal_plan:
  assumes "30 \<le> C" and "C \<le> 180"
  shows "green_of C = \<lfloor>(0.6::real) * of_int C\<rfloor>
       \<and> green_of C = (3 * C) div 5
       \<and> green_of C = round ((0.6::real) * of_int C) - (if 3 * C mod 5 < 3 then 0 else 1)
       \<and> yellow = 6
       \<and> ew_state offsets C (green_of C) yellow nid t =
           Some (let tau = (t + (case offsets nid of None \<Rightarrow> 0 | Some off \<Rightarrow> off)) mod C in
                 if tau < green_of C then Green
                 else if tau < green_of C + 6 then Yellow
                 else Red)"
proof -
  from assms have nonneg: "0 \<le> C" by simp
  have g: "green_of C = (3 * C) div 5" by (rule green_of_floor [OF nonneg])
  have f: "green_of C = \<lfloor>(0.6::real) * of_int C\<rfloor>"
    using nonneg by (simp add: green_of_def py_int_def)
  have r: "green_of C = round ((0.6::real) * of_int C) - (if 3 * C mod 5 < 3 then 0 else 1)"
    unfolding g round_six_tenths by (rule floor_vs_round_six_tenths)
  have e: "ew_state offsets C (green_of C) yellow nid t =
           Some (let tau = (t + (case offsets nid of None \<Rightarrow> 0 | Some off \<Rightarrow> off)) mod C in
                 if tau < green_of C then Green
                 else if tau < green_of C + 6 then Yellow
                 else Red)"
    using assms by (simp add: ew_state_def yellow_def Let_def)
  from f g r e show ?thesis by (simp add: yellow_def)
qed

theorem C7_signal_plan_witness:
  "(30::int) \<le> 90 \<and> (90::int) \<le> 180
   \<and> green_of 90 = 54 \<and> yellow = 6
   \<and> ew_state [''J2'' \<mapsto> 27] 90 (green_of 90) yellow ''J2'' 26 = Some Green
   \<and> ew_state [''J2'' \<mapsto> 27] 90 (green_of 90) yellow ''J2'' 27 = Some Yellow
   \<and> ew_state [''J2'' \<mapsto> 27] 90 (green_of 90) yellow ''J2'' 33 = Some Red"
proof -
  have h1: "(30::int) \<le> 90" and h2: "(90::int) \<le> 180" by simp_all
  note plan = C7_signal_plan [OF h1 h2]
  have g: "green_of 90 = 54"
    using plan [of Map.empty "''J1''" 0, THEN conjunct2, THEN conjunct1] by simp
  have e: "ew_state offs 90 54 6 nid t =
           Some (let tau = (t + (case offs nid of None \<Rightarrow> 0 | Some off \<Rightarrow> off)) mod 90 in
                 if tau < 54 then Green else if tau < 54 + 6 then Yellow else Red)"
    for offs nid t
    using plan [of offs nid t, THEN conjunct2, THEN conjunct2, THEN conjunct2, THEN conjunct2]
    unfolding g yellow_def .
  show ?thesis
    unfolding g yellow_def e by simp
qed

text \<open>
  At \<open>C = 33\<close> the plan's green lasts 19 seconds, not \<open>round(19.8) = 20\<close>: second 19 of the
  cycle is already yellow.
\<close>

theorem C7_round_counterexample:
  "(30::int) \<le> 33 \<and> (33::int) \<le> 180
   \<and> green_of 33 = 19 \<and> round ((0.6::real) * of_int (33::int)) = 20
   \<and> green_of 33 \<noteq> round ((0.6::real) * of_int (33::int))
   \<and> (19 + 0) mod 33 < round ((0.6::real) * of_int (33::int))
   \<and> ew_state [''J1'' \<mapsto> 0] 33 (green_of 33) yellow ''J1'' 19 = Some Yellow"
proof -
  have g: "green_of 33 = 19" by (simp add: green_of_floor)
  have r: "round ((0.6::real) * of_int (33::int)) = 20"
    unfolding round_six_tenths by simp
  from g r show ?thesis by (simp add: ew_state_def yellow_def)
qed

section \<open>Properties of the bus stops\<close>

lemma pop_at_length: "pop_at i xs = Some ys \<Longrightarrow> length ys < length xs"
  by (auto simp: pop_at_def split: if_splits)

lemma leave_stop_occupancy:
  assumes "leave_stop v s sx0 = Some (v', s')" and "stop_occupancy s' sx = Some occ'"
  shows "\<exists>occ. stop_occupancy s sx = Some occ \<and> length occ' \<le> length occ"
  using assms
  by (auto simp: leave_stop_def Let_def split: bind_splits if_splits dest!: pop_at_length)

lemma leave_stop_capacity:
  assumes "within_capacity s" and "leave_stop v s sx0 = Some (v', s')"
  shows "within_capacity s'"
  unfolding within_capacity_def
proof (intro allI impI)
  fix sx occ'
  assume "stop_occupancy s' sx = Some occ'"
  with assms(2) obtain occ where "stop_occupancy s sx = Some occ" "length occ' \<le> length occ"
    using leave_stop_occupancy by blast
  with assms(1) show "length occ' \<le> STOP_BERTHS"
    unfolding within_capacity_def by fastforce
qed

lemma queue_hold_occupancy:
  assumes "queue_hold v s sx = Some (v', s')"
  shows "stop_occupancy s' = stop_occupancy s"
  using assms by (auto simp: queue_hold_def Let_def split: bind_splits)

lemma enter_stop_occupancy:
  assumes "enter_stop req lines v s t sx name occ = Some (v', s')"
  shows "stop_occupancy s' = (stop_occupancy s)(sx \<mapsto> occ @ [vid v])"
  using assms by (auto simp: enter_stop_def Let_def split: bind_splits if_splits)

lemma approach_stop_capacity:
  assumes "within_capacity s" and "approach_stop req lines v s t sx = Some (v', s')"
  shows "within_capacity s'"
  using assms
  by (auto simp: approach_stop_def within_capacity_def 
           split: bind_splits if_splits dest!: queue_hold_occupancy enter_stop_occupancy)

lemma check_stops_capacity:
  assumes "within_capacity s" and "check_stops req lines v s t x x_try sxs = Some (Some (v', s'))"
  shows "within_capacity s'"
  using assms
  by (induction sxs) (auto split: if_splits option.splits dest: approach_stop_capacity)

lemma bus_move_capacity:
  assumes "within_capacity s" and "bus_move req lines v s t g x x_try = Some (v', s')"
  shows "within_capacity s'"
  using assms
  by (auto simp: bus_move_def split: option.splits dest: check_stops_capacity)

lemma update_one_capacity:
  assumes "within_capacity s" and "update_one req lines s v t g = Some (v', s')"
  shows "within_capacity s'"
  using assms
  by (auto simp: update_one_def Let_def split: option.splits if_splits
           dest: bus_move_capacity leave_stop_capacity)

lemma update_all_capacity:
  assumes "within_capacity s"
    and "update_all req lines t g vs moved s a oc = Some (moved', s', a', oc')"
  shows "within_capacity s'"
  using assms
proof (induction vs arbitrary: moved s a oc)
  case Nil
  then show ?case by simp
next
  case (Cons v vs)
  from Cons.prems(2) obtain nv0 s1 where u: "update_one req lines s v t g = Some (nv0, s1)"
    by (auto split: option.splits)
  with Cons.prems(1) have c1: "within_capacity s1" by (rule update_one_capacity)
  from Cons.prems(2) u show ?case
    by (auto simp: Let_def split: if_splits intro: Cons.IH [OF c1])
qed

lemma tick_capacity:
  assumes "within_capacity (stops st)" and "tick env t st = Some st'"
  shows "within_capacity (stops st')"
  using assms
  by (auto simp: tick_def Let_def split: bind_splits prod.splits dest: update_all_capacity)

lemma sim_loop_capacity:
  assumes "within_capacity (stops st)" and "sim_loop env n st = Some st'"
  shows "within_capacity (stops st')"
  using assms(2)
proof (induction n arbitrary: st')
  case 0
  with assms(1) show ?case by simp
next
  case (Suc n)
  then show ?case by (auto split: option.splits dest: tick_capacity)
qed

lemma sim_init_capacity: "within_capacity (stops (sim_init lines r))"
  by (simp add: sim_init_def stops_init_def within_capacity_def bus_stops_def STOP_BERTHS_def
      split: if_splits)



lemmas sim_const_defs =
  sim_init_def stops_init_def acc_init_def line_stats_init_def stop_stats_init_def
  bus_stops_def stop_name_def nodes_def stoplines_def new_car_def new_bus_def X_MIN_def
  X_MAX_def STOPLINE_BUFFER_def STOP_BERTHS_def COINCIDENCE_WINDOW_def PRESTOP_HOLD_def
  digit_char_def

lemmas step_defs =
  tick_def ew_state_def green_of_def py_int_def yellow_def green_map_def buses_first_def
  update_one_def bus_move_def stopline_move_def stopline_limit_def next_stopline_x_def
  approach_stop_def enter_stop_def queue_hold_def leave_stop_def dwell_config_def
  line_or_BUS_def cruise_speed_def bus_speed_def py_uniform_def py_random_def
  count_second_def score_exit_def Let_def



section \<open>Positions across ticks\<close>

text \<open>
  The stop-line rule clamps the new position to 4.5 units before the next stop line
  without comparing it with the old position. A car that a green tick has left inside
  that buffer is therefore moved back to its edge as soon as the signal is not green.
\<close>

lemma stopline_pulls_back:
  assumes "kind v = Car" and "-604.5 < x_pos v" and "x_pos v < -600.1" and "0 \<le> vel v"
    and "green_now ''J1'' \<noteq> Some True"
  shows "\<exists>v'. update_one req lines s v t green_now = Some (v', s)
           \<and> x_pos v' = -604.5 \<and> x_pos v' < x_pos v \<and> \<not> stopped v'"
proof -
  have nxt: "next_stopline_x (x_pos v) = Some (-600)"
    using assms(2,3) by (simp add: next_stopline_x_def stoplines_def)
  have nid: "fst (py_min_by (\<lambda>(k, sx). \<bar>sx + 600\<bar>) (hd stoplines) (tl stoplines)) = ''J1''"
    by (simp add: stoplines_def)
  have g: "\<not> (case green_now ''J1'' of None \<Rightarrow> False | Some g \<Rightarrow> g)"
    using assms(5) by (cases "green_now ''J1''") auto
  have lim: "stopline_limit green_now (x_pos v) (x_pos v + vel v) = -604.5"
    using assms(2,3,4) g
    by (simp add: stopline_limit_def nxt nid STOPLINE_BUFFER_def Let_def)
  show ?thesis
    using assms(1,2) lim by (simp add: update_one_def stopline_move_def Let_def)
qed

lemma demo_run_54:
  "\<exists>st. sim_loop demo_env_car 54 (sim_init demo_lines demo_rng_car) = Some st
        \<and> vehicles st = [demo_car] \<and> stops st = stops_init demo_lines \<and> acc st = acc_init
        \<and> car_i st = 1 \<and> bus_spawn_index st ''R61'' = Some 0"
  by (simp add: eval_nat_numeral sim_const_defs demo_env_car_def demo_rng_car_def demo_car_def demo_req_def
          demo_lines_def step_defs)

text \<open>
  C5 fails on the code. The claim: for every active vehicle and every tick, the position
  after \<open>update_one\<close> is at least the position before. In the run \<open>demo_env_car\<close> the car
  stands at \<open>-602\<close> after tick 53, inside the 4.5 unit buffer before the stop line of J1
  at \<open>-600\<close>, which it reached on green. At tick 54 the signal is yellow and the stop-line
  rule sets the position to \<open>min(x_try, -604.5)\<close>: the car is moved back by 2.5 units.
\<close>

theorem C5_car_pulled_back:
  "\<exists>st st'. sim_loop demo_env_car 54 (sim_init demo_lines demo_rng_car) = Some st
      \<and> vehicles st = [demo_car] \<and> x_pos demo_car = -602
      \<and> tick demo_env_car 54 st = Some st'
      \<and> map vid (vehicles st') = [vid demo_car]
      \<and> map x_pos (vehicles st') = [-604.5]
      \<and> (-604.5 :: real) < -602"
proof -
  from demo_run_54 obtain st where
    run: "sim_loop demo_env_car 54 (sim_init demo_lines demo_rng_car) = Some st"
    and st: "vehicles st = [demo_car]" "stops st = stops_init demo_lines" "acc st = acc_init"
      "car_i st = 1" "bus_spawn_index st ''R61'' = Some 0"
    by blast
  have x: "x_pos demo_car = -602" by (simp add: demo_car_def)
  have "\<exists>st'. tick demo_env_car 54 st = Some st'
      \<and> map vid (vehicles st') = [vid demo_car]
      \<and> map x_pos (vehicles st') = [-604.5]"
    by (simp add: st sim_const_defs demo_env_car_def demo_rng_car_def demo_car_def demo_req_def
          demo_lines_def step_defs)
  with run st(1) x show ?thesis by auto
qed

section \<open>KPIs and monitor statistics\<close>

lemma score_exit_counted: "exits_counted a \<Longrightarrow> exits_counted (score_exit t nv a)"
  by (simp add: exits_counted_def score_exit_def Let_def)

lemma leave_stop_monitor:
  "leave_stop v s sx0 = Some (v', s') \<Longrightarrow> monitor_lines s' = monitor_lines s"
  by (auto simp: leave_stop_def Let_def split: bind_splits if_splits)

lemma queue_hold_counted:
  assumes "arrivals_counted s" and "queue_hold v s sx = Some (v', s')"
  shows "arrivals_counted s'"
  using assms
  by (auto simp: queue_hold_def arrivals_counted_def Let_def split: bind_splits if_splits)

lemma enter_stop_counted:
  assumes "arrivals_counted s" and "enter_stop req lines v s t sx name occ = Some (v', s')"
  shows "arrivals_counted s'"
  using assms
  by (auto simp: enter_stop_def arrivals_counted_def Let_def split: bind_splits if_splits)

lemma approach_stop_counted:
  assumes "arrivals_counted s" and "approach_stop req lines v s t sx = Some (v', s')"
  shows "arrivals_counted s'"
  using assms
  by (auto simp: approach_stop_def split: bind_splits if_splits
           dest: queue_hold_counted enter_stop_counted)

lemma check_stops_counted:
  assumes "arrivals_counted s" and "check_stops req lines v s t x x_try sxs = Some (Some (v', s'))"
  shows "arrivals_counted s'"
  using assms
  by (induction sxs) (auto split: if_splits option.splits dest: approach_stop_counted)

lemma bus_move_counted:
  assumes "arrivals_counted s" and "bus_move req lines v s t g x x_try = Some (v', s')"
  shows "arrivals_counted s'"
  using assms
  by (auto simp: bus_move_def split: option.splits dest: check_stops_counted)

lemma leave_stop_counted:
  assumes "arrivals_counted s" and "leave_stop v s sx0 = Some (v', s')"
  shows "arrivals_counted s'"
  using assms leave_stop_monitor [OF assms(2)] by (simp add: arrivals_counted_def)

lemma update_one_counted:
  assumes "arrivals_counted s" and "update_one req lines s v t g = Some (v', s')"
  shows "arrivals_counted s'"
  using assms
  by (auto simp: update_one_def Let_def split: option.splits if_splits
           dest: bus_move_counted leave_stop_counted)

lemma update_all_counted:
  assumes "arrivals_counted s" and "exits_counted a"
    and "update_all req lines t g vs moved s a oc = Some (moved', s', a', oc')"
  shows "arrivals_counted s' \<and> exits_counted a'"
  using assms
proof (induction vs arbitrary: moved s a oc)
  case Nil
  then show ?case by simp
next
  case (Cons v vs)
  from Cons.prems(3) obtain nv0 s1 where u: "update_one req lines s v t g = Some (nv0, s1)"
    by (auto split: option.splits)
  with Cons.prems(1) have c1: "arrivals_counted s1" by (rule update_one_counted)
  have c2: "exits_counted (score_exit t (count_second nv0) a)"
    using Cons.prems(2) by (rule score_exit_counted)
  from Cons.prems(3) u show ?case
    by (auto simp: Let_def split: if_splits
             dest: Cons.IH [OF c1 c2] Cons.IH [OF c1 Cons.prems(2)])
qed

lemma tick_counted:
  assumes "arrivals_counted (stops st)" and "exits_counted (acc st)"
    and "tick env t st = Some st'"
  shows "arrivals_counted (stops st') \<and> exits_counted (acc st')"
proof -
  from assms(3) obtain vs moved s' a' oc where
    u: "update_all (env_req env) (env_lines env) t
          (green_map (the (signals_at (env_offsets env) (cycle (env_req env)) t nodes)))
          vs [] (stops st) (acc st) 0 = Some (moved, s', a', oc)"
    and st': "stops st' = s'" "acc st' = a'\<lparr>arrived := arrived a' + oc\<rparr>"
    by (auto simp: tick_def Let_def split: bind_splits prod.splits)
  from update_all_counted [OF assms(1,2) u] st' show ?thesis
    by (simp add: exits_counted_def)
qed

lemma sim_loop_counted:
  assumes "arrivals_counted (stops st)" and "exits_counted (acc st)"
    and "sim_loop env n st = Some st'"
  shows "arrivals_counted (stops st') \<and> exits_counted (acc st')"
  using assms(3)
proof (induction n arbitrary: st')
  case 0
  with assms(1,2) show ?case by simp
next
  case (Suc n)
  then show ?case by (auto split: option.splits dest: tick_counted)
qed

lemma map_of_line_stats_init:
  "map_of (map (\<lambda>L. (bl_id L, line_stats_init L)) ls) lid = Some st
   \<Longrightarrow> arrivals st = 0 \<and> arr_times st = []"
  by (induction ls) (auto simp: line_stats_init_def split: if_splits)

lemma sim_init_counted:
  "arrivals_counted (stops (sim_init lines r)) \<and> exits_counted (acc (sim_init lines r))"
  using map_of_line_stats_init [of "rev lines"]
  by (auto simp: sim_init_def stops_init_def arrivals_counted_def exits_counted_def acc_init_def
        rev_map)

text \<open>
  C9. At the end of a run (after any number of ticks from the initial state), the mean
  discharge headway KPI \<open>avg_discharge_headway_s\<close> is \<open>None\<close>, not zero, whenever fewer than
  2 cars have exited; and for every bus line with fewer than 2 recorded arrivals the
  monitor reports \<open>observed_headway_avg\<close>, \<open>observed_headway_std\<close> and \<open>on_time_pct\<close> all as
  \<open>None\<close>. The same holds of the two computations by themselves, for any list of exit
  times and any list of arrival times shorter than 2.
\<close>

theorem C9_undefined_statistics:
  "(sim_loop env n (sim_init lines r) = Some st \<and> car_exited (acc st) < 2 \<longrightarrow>
      avg_discharge_headway_s (res_kpis (finalize req st)) = None)
   \<and> (sim_loop env n (sim_init lines r) = Some st \<and> monitor_lines (stops st) lid = Some ls
        \<and> arrivals ls < 2 \<longrightarrow>
      (\<exists>rep. res_lines (finalize req st) lid = Some rep
         \<and> observed_headway_avg rep = None \<and> observed_headway_std rep = None
         \<and> on_time_pct rep = None))
   \<and> (length exit_ts < 2 \<longrightarrow> avg_headway_of exit_ts = None)
   \<and> (length (arr_times stats) < 2 \<longrightarrow>
        observed_headway_avg (finalize_line tol stats) = None
        \<and> observed_headway_std (finalize_line tol stats) = None
        \<and> on_time_pct (finalize_line tol stats) = None)"
proof (intro conjI impI)
  assume a: "sim_loop env n (sim_init lines r) = Some st \<and> car_exited (acc st) < 2"
  then have "exits_counted (acc st)"
    using sim_loop_counted sim_init_counted by blast
  with a have "length (car_exit_ts (acc st)) < 2" by (simp add: exits_counted_def)
  then show "avg_discharge_headway_s (res_kpis (finalize req st)) = None"
    by (simp add: finalize_def compute_kpis_def avg_headway_of_def Let_def)
next
  assume a: "sim_loop env n (sim_init lines r) = Some st \<and> monitor_lines (stops st) lid = Some ls
        \<and> arrivals ls < 2"
  then have "arrivals_counted (stops st)"
    using sim_loop_counted sim_init_counted by blast
  with a have "length (arr_times ls) < 2" by (auto simp: arrivals_counted_def)
  with a show "\<exists>rep. res_lines (finalize req st) lid = Some rep
         \<and> observed_headway_avg rep = None \<and> observed_headway_std rep = None
         \<and> on_time_pct rep = None"
    by (simp add: finalize_def finalize_line_def Let_def)
next
  assume "length exit_ts < 2"
  then show "avg_headway_of exit_ts = None" by (simp add: avg_headway_of_def)
next
  assume a: "length (arr_times stats) < 2"
  then show "observed_headway_avg (finalize_line tol stats) = None"
    by (simp add: finalize_line_def Let_def)
  from a show "observed_headway_std (finalize_line tol stats) = None"
    by (simp add: finalize_line_def Let_def)
  from a show "on_time_pct (finalize_line tol stats) = None"
    by (simp add: finalize_line_def Let_def)
qed

theorem C9_undefined_statistics_witness:
  "\<exists>st ls rep. sim_loop demo_env 2 (sim_init demo_lines demo_rng) = Some st
      \<and> car_exited (acc st) = 0
      \<and> avg_discharge_headway_s (res_kpis (finalize demo_req st)) = None
      \<and> monitor_lines (stops st) ''R61'' = Some ls \<and> arrivals ls = 0
      \<and> res_lines (finalize demo_req st) ''R61'' = Some rep
      \<and> observed_headway_avg rep = None \<and> observed_headway_std rep = None
      \<and> on_time_pct rep = None
      \<and> avg_headway_of [7] = None
      \<and> observed_headway_avg (finalize_line 120 ((line_stats_init (hd demo_lines))
            \<lparr>arrivals := 1, arr_times := [40]\<rparr>)) = None"
proof -
  have "\<exists>st ls. sim_loop demo_env 2 (sim_init demo_lines demo_rng) = Some st
          \<and> car_exited (acc st) = 0 \<and> monitor_lines (stops st) ''R61'' = Some ls
          \<and> arrivals ls = 0"
    by (simp add: numeral_2_eq_2 sim_const_defs demo_env_def demo_req_def demo_lines_def demo_rng_def step_defs)
  then obtain st ls where run: "sim_loop demo_env 2 (sim_init demo_lines demo_rng) = Some st"
    and ex: "car_exited (acc st) = 0"
    and ml: "monitor_lines (stops st) ''R61'' = Some ls" and ar: "arrivals ls = 0"
    by blast
  note inst = C9_undefined_statistics [where env = demo_env and n = 2 and lines = demo_lines
      and r = demo_rng and st = st and req = demo_req and lid = "''R61''" and ls = ls
      and exit_ts = "[7]" and tol = 120
      and stats = "(line_stats_init (hd demo_lines))\<lparr>arrivals := 1, arr_times := [40]\<rparr>"]
  from inst run ex have k: "avg_discharge_headway_s (res_kpis (finalize demo_req st)) = None"
    by simp
  from inst run ml ar obtain rep where rep: "res_lines (finalize demo_req st) ''R61'' = Some rep"
    "observed_headway_avg rep = None" "observed_headway_std rep = None" "on_time_pct rep = None"
    by auto
  from inst have h: "avg_headway_of [7] = None" by simp
  from inst have l: "observed_headway_avg (finalize_line 120 ((line_stats_init (hd demo_lines))
            \<lparr>arrivals := 1, arr_times := [40]\<rparr>)) = None" by simp
  from run ex k ml ar rep h l show ?thesis by blast
qed

section \<open>Properties of the demand generator\<close>

text \<open>
  C8 (as amended). For every run of the demand generator (every random draw sequence and
  every target volume), every headway that \<open>sample_headway\<close> returns, which is the amount
  by which the generator's clock advances from one departure of a green window to the
  next, lies within \<open>[0.6, 6.0]\<close> seconds.
\<close>

theorem C8_sampled_headway_range:
  "0.6 \<le> fst (sample_headway mu sigma r) \<and> fst (sample_headway mu sigma r) \<le> 6.0"
  by (simp add: sample_headway_def np_clip_def np_lognormal_def split: prod.splits)

text \<open>
  The gaps of the timeline itself are not confined to that interval. For the request
  \<open>demo_req_short\<close> (cycle 30, 60 steps, 600 vehicles per hour), with every uniform draw
  \<open>1/2\<close> and every normal draw \<open>0\<close>, the green windows of the cycles starting at 0 and at 30
  give five departures each; the last of the first window and the first of the second
  are consecutive in the sorted timeline and 15.6 seconds apart.
\<close>

theorem C8_timeline_gap_counterexample:
  "valid_request demo_req_short
   \<and> offsets_of demo_req_short = Some demo_offsets
   \<and> map_option fst (car_depart_times_of demo_req_short demo_offsets demo_rng)
       = Some [0.575, 4.175, 7.775, 11.375, 14.975, 30.575, 34.175, 37.775, 41.375, 44.975]
   \<and> [0.575, 4.175, 7.775, 11.375, 14.975, 30.575, 34.175, 37.775, 41.375, 44.975 :: real] ! 5
       - [0.575, 4.175, 7.775, 11.375, 14.975, 30.575, 34.175, 37.775, 41.375, 44.975] ! 4
       = 15.6
   \<and> \<not> (15.6 :: real) \<le> 6.0"
proof -
  have v: "valid_request demo_req_short"
    by (simp add: valid_request_def demo_req_short_def demo_req_def)
  have o: "offsets_of demo_req_short = Some demo_offsets"
    by (simp add: offsets_of_def demo_req_short_def demo_req_def demo_offsets_def)
  have t: "map_option fst (car_depart_times_of demo_req_short demo_offsets demo_rng)
       = Some [0.575, 4.175, 7.775, 11.375, 14.975, 30.575, 34.175, 37.775, 41.375, 44.975]"
    by (simp add: car_depart_times_of_def demo_req_short_def demo_req_def demo_rng_def
        demo_offsets_def green_of_def py_int_def target_vph_of_def headway_mu_def
        headway_sigma_def np_clip_def STEPS_of_def demand_loop.simps sample_headway_def
        np_lognormal_def py_uniform_def py_random_def Let_def)
  from v o t show ?thesis by simp
qed

section \<open>The whole run\<close>

text \<open>
  The loop invariants at the level of \<open>run_sim\<close>: whatever a run returns was computed by
  \<open>finalize\<close> from a state that \<open>sim_loop\<close> reached from the initial state.
\<close>

lemma run_sim_reaches:
  assumes "run_sim req r = Some res"
  shows "\<exists>env r' st. sim_loop env (nat (STEPS_of req)) (sim_init (lines_of req) r') = Some st
           \<and> res = finalize req st"
  using assms by (fastforce simp: run_sim_def Let_def split: bind_splits)

lemma run_sim_invariants:
  assumes "run_sim req r = Some res"
  shows "\<exists>st. res = finalize req st
           \<and> (car_exited (acc st) < 2 \<longrightarrow> avg_discharge_headway_s (res_kpis res) = None)
           \<and> within_capacity (stops st)"
proof -
  from run_sim_reaches [OF assms(1)] obtain env r' st where
    run: "sim_loop env (nat (STEPS_of req)) (sim_init (lines_of req) r') = Some st"
    and res: "res = finalize req st"
    by blast
  from run have "exits_counted (acc st)"
    using sim_loop_counted sim_init_counted by blast
  then have "car_exited (acc st) < 2 \<longrightarrow> avg_discharge_headway_s (res_kpis res) = None"
    by (simp add: res exits_counted_def finalize_def compute_kpis_def avg_headway_of_def Let_def)
  moreover from run have "within_capacity (stops st)"
    using sim_loop_capacity sim_init_capacity by blast
  ultimately show ?thesis using res by blast
qed


end
